theory Spec2Isabelle
  imports Main "HOL-Library.Word"
begin

section \<open>HTTP Basic authorization against realm password files (lwan-http-authorize.c)\<close>

text \<open>
  The development embeds \<^verbatim>\<open>src/common/lwan-http-authorize.c\<close>: the construction and the
  destruction of a realm password entry (\<^verbatim>\<open>create_realm_file\<close>, \<^verbatim>\<open>destroy_realm_file\<close>,
  \<^verbatim>\<open>fourty_two_and_free\<close>), the credential check (\<^verbatim>\<open>authorize\<close>) and the entry point
  (\<^verbatim>\<open>lwan_http_authorize\<close>).

  Bytes are \<^typ>\<open>char\<close> (eight bits). A \<^verbatim>\<open>char *\<close> is the list of bytes that can be read
  from the pointer; the string it denotes stops before the first NUL byte, and the end of
  the list stands for a terminating NUL. Heap effects that the properties below talk about
  are explicit in the state: a count of live heap blocks, a count of open configuration
  files, and a chronological trace of releases and log messages.
\<close>

subsection \<open>C strings\<close>

abbreviation NUL :: char where
  "NUL \<equiv> CHR 0x00"

definition cstr :: "char list \<Rightarrow> char list" where
  "cstr m = takeWhile (\<lambda>c. c \<noteq> NUL) m"

text \<open>
  \<^verbatim>\<open>streq(a, b)\<close> receives two pointers and no length: it is \<^verbatim>\<open>strcmp(a, b) == 0\<close>, the
  two C strings are the same bytes.
\<close>

definition streq :: "char list \<Rightarrow> char list \<Rightarrow> bool" where
  "streq a b = (cstr a = cstr b)"

text \<open>\<^verbatim>\<open>strncmp(a, b, n) == 0\<close>: the C strings agree on their first \<open>n\<close> bytes.\<close>

definition strncmp_eq :: "char list \<Rightarrow> char list \<Rightarrow> nat \<Rightarrow> bool" where
  "strncmp_eq a b n = (take n (cstr a) = take n (cstr b))"

text \<open>\<^verbatim>\<open>memchr(s, c, n)\<close> over the \<open>n\<close> bytes of \<open>s\<close>: the offset of the first \<open>c\<close>, if any.\<close>

fun memchr :: "char list \<Rightarrow> char \<Rightarrow> nat option" where
  "memchr [] c = None"
| "memchr (x # xs) c = (if x = c then Some 0 else map_option Suc (memchr xs c))"

subsection \<open>Data\<close>

text \<open>
  \<^verbatim>\<open>struct hash\<close> with string keys: an association list in insertion order.
  \<^verbatim>\<open>struct realm_password_file_t\<close> holds it in \<^verbatim>\<open>entries\<close> (the \<^verbatim>\<open>cache_entry_t base\<close>
  belongs to the cache engine).
\<close>

type_synonym hash = "(char list \<times> char list) list"

record realm_password_file_t =
  entries :: hash

text \<open>
  What the line-configuration reader hands over for one record of a file: its
  classification and, for a \<^verbatim>\<open>key = value\<close> line, the two strings \<^verbatim>\<open>l.line.key\<close> and
  \<^verbatim>\<open>l.line.value\<close>.
\<close>

datatype config_line_type_t =
    CONFIG_LINE_TYPE_LINE
  | CONFIG_LINE_TYPE_SECTION
  | CONFIG_LINE_TYPE_SECTION_END

record config_line_t =
  line_type :: config_line_type_t
  line_key :: "char list"
  line_value :: "char list"

record config_t =
  remaining :: "config_line_t list"
  error_message :: "char list option"

text \<open>\<^verbatim>\<open>lwan_value_t\<close>: a pointer (NULL is \<open>None\<close>) and a \<^verbatim>\<open>size_t\<close> length (64 bits).\<close>

record lwan_value_t =
  v_value :: "char list option"
  v_len :: "64 word"

record lwan_key_value_t =
  kv_key :: "char list option"
  kv_value :: "char list option"

text \<open>
  The parts of \<^verbatim>\<open>lwan_request_t\<close> the code touches: \<^verbatim>\<open>request->conn->coro\<close> and
  \<^verbatim>\<open>request->response.headers\<close> (NULL is \<open>None\<close>). Every other field of a request and
  of its response lives in the extensions of the two records.
\<close>

record lwan_connection_t =
  coro :: nat

record lwan_response_t =
  headers :: "lwan_key_value_t list option"

record 'r lwan_request_t =
  conn :: lwan_connection_t
  response :: "'r lwan_response_t_scheme"

datatype event =
    Free "char list"
  | Free_hash
  | Free_rpf
  | Config_open "char list"
  | Config_close
  | Status_warning "char list"
  | Status_error "char list" "char list"

text \<open>
  The program state: the entries of \<^verbatim>\<open>realm_password_cache\<close> by password-file path, the
  number of allocation requests made so far, the number of live heap blocks owned by this
  module, the number of open configuration files, and the trace. \<open>Free b\<close> records a
  \<^verbatim>\<open>free()\<close> of a byte block holding \<open>b\<close> at that moment.
\<close>

record state =
  realm_password_cache :: "(char list \<times> realm_password_file_t) list"
  allocs :: nat
  live :: int
  open_files :: int
  trace :: "event list"

text \<open>
  The environment of a call. \<open>base64_decode\<close> is the decoder of \<^verbatim>\<open>base64.h\<close>, applied to
  the source pointer and length; \<open>None\<close> is its NULL result, otherwise the \<^verbatim>\<open>decoded_len\<close>
  decoded bytes. \<open>buffer_size\<close> is \<^verbatim>\<open>sizeof(((config_line_t * )0)->buffer)\<close>.
  \<open>config_files\<close> gives, for a path that \<^verbatim>\<open>config_open\<close> can open, the records the reader
  yields. \<open>alloc_ok n\<close> tells whether the \<open>n\<close>-th allocation request succeeds.

  \<^verbatim>\<open>authorize\<close> reads the supplied password with \<^verbatim>\<open>strcmp\<close>, which does not know
  \<^verbatim>\<open>decoded_len\<close>, and the sources do not say whether the decoder terminates its buffer.
  So the environment also gives \<open>memory_after\<close>: for the source pointer and length of a
  decoder call, the bytes that lie in memory right behind the \<^verbatim>\<open>decoded_len\<close> decoded bytes,
  as far as the next NUL byte there (the end of this list). It is empty when the byte at
  \<^verbatim>\<open>decoded[decoded_len]\<close> is NUL.
\<close>

record env =
  base64_decode :: "char list option \<Rightarrow> 64 word \<Rightarrow> char list option"
  memory_after :: "char list option \<Rightarrow> 64 word \<Rightarrow> char list"
  buffer_size :: nat
  config_files :: "char list \<Rightarrow> config_line_t list option"
  alloc_ok :: "nat \<Rightarrow> bool"

subsection \<open>Allocation, release and logging\<close>

definition log_event :: "event \<Rightarrow> state \<Rightarrow> state" where
  "log_event e st = st\<lparr>trace := trace st @ [e]\<rparr>"

text \<open>An allocation request whose block is not tracked here (owned by a table or a coroutine).\<close>

definition alloc :: "env \<Rightarrow> state \<Rightarrow> bool \<times> state" where
  "alloc env st = (alloc_ok env (allocs st), st\<lparr>allocs := Suc (allocs st)\<rparr>)"

definition malloc :: "env \<Rightarrow> state \<Rightarrow> bool \<times> state" where
  "malloc env st =
     (let (ok, st1) = alloc env st
      in (ok, if ok then st1\<lparr>live := live st1 + 1\<rparr> else st1))"

definition strdup :: "env \<Rightarrow> char list \<Rightarrow> state \<Rightarrow> char list option \<times> state" where
  "strdup env s st =
     (let (ok, st1) = malloc env st
      in (if ok then Some (cstr s) else None, st1))"

definition c_free :: "char list \<Rightarrow> state \<Rightarrow> state" where
  "c_free b st = log_event (Free b) (st\<lparr>live := live st - 1\<rparr>)"

subsection \<open>\<^verbatim>\<open>fourty_two_and_free\<close>\<close>

text \<open>The loop \<^verbatim>\<open>while ( *s) *s++ = 42;\<close> over the bytes of a block.\<close>

fun overwrite_42 :: "char list \<Rightarrow> char list" where
  "overwrite_42 [] = []"
| "overwrite_42 (c # cs) = (if c = NUL then c # cs else char_of (42 :: nat) # overwrite_42 cs)"

text \<open>A string \<open>s\<close> of the table occupies the block \<open>s @ [NUL]\<close>.\<close>

definition fourty_two_and_free :: "char list option \<Rightarrow> state \<Rightarrow> state" where
  "fourty_two_and_free str st =
     (case str of
        None \<Rightarrow> st
      | Some s \<Rightarrow> c_free (overwrite_42 (s @ [NUL])) st)"

subsection \<open>The hash table\<close>

text \<open>
  Modelled from the spec: the hash-map primitive (\<^verbatim>\<open>hash.c\<close> is not part of the sources).
  The CredentialIndex maps a username to a password with unique keys; adding a key that is
  present is rejected with \<^verbatim>\<open>-EEXIST\<close> and leaves the table as it was; releasing the table
  hands every stored value and key to the callbacks given to \<^verbatim>\<open>hash_str_new\<close>. Keys are
  compared as C strings. An insertion may have to grow the table, so it asks the allocator.
\<close>

definition EEXIST :: int where
  "EEXIST = 17"

definition ENOMEM :: int where
  "ENOMEM = 12"

definition hash_str_new :: "env \<Rightarrow> state \<Rightarrow> hash option \<times> state" where
  "hash_str_new env st =
     (let (ok, st1) = malloc env st
      in (if ok then Some [] else None, st1))"

definition hash_find :: "hash \<Rightarrow> char list \<Rightarrow> char list option" where
  "hash_find h k = map_option snd (find (\<lambda>e. streq (fst e) k) h)"

definition hash_add_unique ::
  "env \<Rightarrow> hash \<Rightarrow> char list \<Rightarrow> char list \<Rightarrow> state \<Rightarrow> int \<times> hash \<times> state" where
  "hash_add_unique env h k v st =
     (let (ok, st1) = alloc env st
      in if \<not> ok then (- ENOMEM, h, st1)
         else if hash_find h k \<noteq> None then (- EEXIST, h, st1)
         else (0, h @ [(k, v)], st1))"

fun hash_free_entries ::
  "(char list option \<Rightarrow> state \<Rightarrow> state) \<Rightarrow> (char list option \<Rightarrow> state \<Rightarrow> state) \<Rightarrow>
   hash \<Rightarrow> state \<Rightarrow> state" where
  "hash_free_entries free_key free_value [] st = st"
| "hash_free_entries free_key free_value ((k, v) # es) st =
     hash_free_entries free_key free_value es (free_key (Some k) (free_value (Some v) st))"

definition hash_free ::
  "(char list option \<Rightarrow> state \<Rightarrow> state) \<Rightarrow> (char list option \<Rightarrow> state \<Rightarrow> state) \<Rightarrow>
   hash option \<Rightarrow> state \<Rightarrow> state" where
  "hash_free free_key free_value h st =
     (case h of
        None \<Rightarrow> st
      | Some es \<Rightarrow>
          (let st1 = hash_free_entries free_key free_value es st
           in log_event Free_hash (st1\<lparr>live := live st1 - 1\<rparr>)))"

subsection \<open>The line-configuration reader\<close>

text \<open>
  Modelled from the spec: the line-configuration reader (\<^verbatim>\<open>lwan-config.c\<close> is not part
  of the sources). A file is the ordered list of its records, blank lines and comments
  already dropped; \<^verbatim>\<open>config_read_line\<close> yields the next record, and nothing at the end of
  the file or once an error message is set; \<^verbatim>\<open>config_error\<close> sets the error message
  unless one is set.
\<close>

definition config_open :: "env \<Rightarrow> char list \<Rightarrow> state \<Rightarrow> config_t option \<times> state" where
  "config_open env path st =
     (case config_files env path of
        None \<Rightarrow> (None, st)
      | Some ls \<Rightarrow>
          (Some \<lparr>remaining = ls, error_message = None\<rparr>,
           log_event (Config_open path) (st\<lparr>open_files := open_files st + 1\<rparr>)))"

definition config_read_line :: "config_t \<Rightarrow> (config_line_t \<times> config_t) option" where
  "config_read_line f =
     (if error_message f \<noteq> None then None
      else case remaining f of
             [] \<Rightarrow> None
           | l # ls \<Rightarrow> Some (l, f\<lparr>remaining := ls\<rparr>))"

definition config_error :: "config_t \<Rightarrow> char list \<Rightarrow> config_t" where
  "config_error f msg =
     (if error_message f \<noteq> None then f else f\<lparr>error_message := Some msg\<rparr>)"

definition config_close :: "state \<Rightarrow> state" where
  "config_close st = log_event Config_close (st\<lparr>open_files := open_files st - 1\<rparr>)"

subsection \<open>\<^verbatim>\<open>create_realm_file\<close> and \<^verbatim>\<open>destroy_realm_file\<close>\<close>

datatype loop_exit = Loop_end | Goto_error

text \<open>
  The \<^verbatim>\<open>while (config_read_line(&f, &l))\<close> loop. It is left either by the reader returning
  false (\<open>Loop_end\<close>) or by a \<^verbatim>\<open>goto error\<close> (\<open>Goto_error\<close>). The block of a duplicated
  string \<open>s\<close> is \<open>s @ [NUL]\<close>. The warning carries the formatted message.
\<close>

function read_lines ::
  "env \<Rightarrow> config_t \<Rightarrow> hash \<Rightarrow> state \<Rightarrow> loop_exit \<times> config_t \<times> hash \<times> state" where
  "read_lines env f h st =
     (case config_read_line f of
        None \<Rightarrow> (Loop_end, f, h, st)
      | Some (l, f1) \<Rightarrow>
          (case line_type l of
             CONFIG_LINE_TYPE_LINE \<Rightarrow>
               (case strdup env (line_key l) st of
                  (None, st1) \<Rightarrow> (Goto_error, f1, h, st1)
                | (Some username, st1) \<Rightarrow>
                    (case strdup env (line_value l) st1 of
                       (None, st2) \<Rightarrow> (Goto_error, f1, h, c_free (username @ [NUL]) st2)
                     | (Some password, st2) \<Rightarrow>
                         (case hash_add_unique env h username password st2 of
                            (err, h1, st3) \<Rightarrow>
                              if err = 0 then read_lines env f1 h1 st3
                              else
                                (let st4 = c_free (password @ [NUL])
                                             (c_free (username @ [NUL]) st3)
                                 in if err = - EEXIST
                                    then read_lines env f1 h1
                                           (log_event
                                              (Status_warning
                                                 (''Username entry already exists, ignoring: '' @
                                                  [CHR 0x22] @ cstr (line_key l) @ [CHR 0x22]))
                                              st4)
                                    else (Goto_error, f1, h1, st4)))))
           | _ \<Rightarrow> read_lines env (config_error f1 ''Expected username = password'') h st))"
  by pat_completeness auto

termination read_lines
  by (relation "measure (\<lambda>(env, f, h, st). length (remaining f))")
    (auto simp: config_read_line_def config_error_def split: if_splits list.splits)

declare read_lines.simps [simp del]

definition free_rpf :: "state \<Rightarrow> state" where
  "free_rpf st = log_event Free_rpf (st\<lparr>live := live st - 1\<rparr>)"

text \<open>
  The labels \<^verbatim>\<open>error_no_close\<close> and \<^verbatim>\<open>error\<close>. The table was created by
  \<^verbatim>\<open>hash_str_new(fourty_two_and_free, fourty_two_and_free)\<close>, so those are the callbacks.
\<close>

definition error_no_close :: "hash option \<Rightarrow> state \<Rightarrow> state" where
  "error_no_close h st = free_rpf (hash_free fourty_two_and_free fourty_two_and_free h st)"

definition error_close :: "hash option \<Rightarrow> state \<Rightarrow> state" where
  "error_close h st = error_no_close h (config_close st)"

text \<open>
  \<^verbatim>\<open>lwan_status_error\<close> is recorded with the path and the reader's message (the line
  number of the reader is not modelled).
\<close>

definition create_realm_file ::
  "env \<Rightarrow> char list \<Rightarrow> state \<Rightarrow> realm_password_file_t option \<times> state" where
  "create_realm_file env key st =
     (case malloc env st of
        (False, st1) \<Rightarrow> (None, st1)
      | (True, st1) \<Rightarrow>
          (case hash_str_new env st1 of
             (None, st2) \<Rightarrow> (None, error_no_close None st2)
           | (Some h0, st2) \<Rightarrow>
               (case config_open env key st2 of
                  (None, st3) \<Rightarrow> (None, error_no_close (Some h0) st3)
                | (Some f, st3) \<Rightarrow>
                    (case read_lines env f h0 st3 of
                       (Goto_error, f1, h, st4) \<Rightarrow> (None, error_close (Some h) st4)
                     | (Loop_end, f1, h, st4) \<Rightarrow>
                         (case error_message f1 of
                            Some msg \<Rightarrow>
                              (None, error_close (Some h) (log_event (Status_error key msg) st4))
                          | None \<Rightarrow> (Some \<lparr>entries = h\<rparr>, config_close st4))))))"

definition destroy_realm_file :: "realm_password_file_t \<Rightarrow> state \<Rightarrow> state" where
  "destroy_realm_file rpf st =
     free_rpf (hash_free fourty_two_and_free fourty_two_and_free (Some (entries rpf)) st)"

subsection \<open>The cache\<close>

text \<open>
  Modelled from the spec: the keyed cache engine (\<^verbatim>\<open>lwan-cache.c\<close> is not part of the
  sources), as a single caller sees it. \<open>get_and_ref\<close> returns the live entry for the path; if
  there is none it runs the creation callback, installs the entry it built under the path,
  and fails if the construction failed. Destroying the cache destroys every live entry
  through the destruction callback. Expiry and the reference count stay with the engine.
\<close>

definition cache_coro_get_and_ref_entry ::
  "env \<Rightarrow> nat \<Rightarrow> char list \<Rightarrow> state \<Rightarrow> realm_password_file_t option \<times> state" where
  "cache_coro_get_and_ref_entry env co key st =
     (case map_of (realm_password_cache st) key of
        Some rpf \<Rightarrow> (Some rpf, st)
      | None \<Rightarrow>
          (case create_realm_file env key st of
             (None, st1) \<Rightarrow> (None, st1)
           | (Some rpf, st1) \<Rightarrow>
               (Some rpf,
                st1\<lparr>realm_password_cache := realm_password_cache st1 @ [(key, rpf)]\<rparr>)))"

definition cache_destroy :: "state \<Rightarrow> state" where
  "cache_destroy st =
     (fold (\<lambda>e. destroy_realm_file (snd e)) (realm_password_cache st) st)
       \<lparr>realm_password_cache := []\<rparr>"

definition lwan_http_authorize_shutdown :: "state \<Rightarrow> state" where
  "lwan_http_authorize_shutdown st = cache_destroy st"

subsection \<open>\<^verbatim>\<open>authorize\<close> and \<^verbatim>\<open>lwan_http_authorize\<close>\<close>

text \<open>
  \<^verbatim>\<open>authorize\<close>. The buffer \<^verbatim>\<open>base64_decode\<close> returns is a live heap block until
  \<^verbatim>\<open>free(decoded)\<close>. The username handed to \<^verbatim>\<open>hash_find\<close> and the password handed to
  \<^verbatim>\<open>streq\<close> are C strings read from that buffer after \<^verbatim>\<open>*colon = '\0'\<close>. The username
  ends at that NUL, inside the buffer. Nothing ends the password at \<^verbatim>\<open>decoded_len\<close>: read
  from \<^verbatim>\<open>colon + 1\<close>, it is the rest of the decoded bytes followed by the bytes that lie
  behind the buffer, up to the first NUL.
\<close>

definition authorize ::
  "env \<Rightarrow> nat \<Rightarrow> lwan_value_t \<Rightarrow> char list \<Rightarrow> state \<Rightarrow> bool \<times> state" where
  "authorize env co authorization password_file st =
     (case cache_coro_get_and_ref_entry env co password_file st of
        (None, st1) \<Rightarrow> (False, st1)
      | (Some rpf, st1) \<Rightarrow>
          (case base64_decode env (v_value authorization) (v_len authorization) of
             None \<Rightarrow> (False, st1)
           | Some decoded \<Rightarrow>
               (let st2 = st1\<lparr>live := live st1 + 1\<rparr>
                in if length decoded \<ge> buffer_size env then (False, c_free decoded st2)
                   else
                     (case memchr decoded (CHR '':'') of
                        None \<Rightarrow> (False, c_free decoded st2)
                      | Some colon \<Rightarrow>
                          (let decoded1 = decoded[colon := NUL];
                               password =
                                 drop (Suc colon) decoded1 @
                                 memory_after env (v_value authorization) (v_len authorization);
                               password_ok =
                                 (case hash_find (entries rpf) decoded1 of
                                    None \<Rightarrow> False
                                  | Some looked_password \<Rightarrow> streq password looked_password)
                           in (password_ok, c_free decoded1 st2))))))"

text \<open>
  \<^verbatim>\<open>coro_malloc\<close> and \<^verbatim>\<open>coro_printf\<close> allocate memory that the coroutine owns; either may
  return NULL. \<^verbatim>\<open>coro_printf\<close> is applied to \<^verbatim>\<open>authenticate_tmpl\<close>, that is
  \<^verbatim>\<open>Basic realm="%s"\<close>.
\<close>

definition coro_malloc :: "env \<Rightarrow> nat \<Rightarrow> state \<Rightarrow> bool \<times> state" where
  "coro_malloc env co st = alloc env st"

definition coro_printf_authenticate ::
  "env \<Rightarrow> nat \<Rightarrow> char list \<Rightarrow> state \<Rightarrow> char list option \<times> state" where
  "coro_printf_authenticate env co realm st =
     (let (ok, st1) = alloc env st
      in (if ok then Some (''Basic realm='' @ [CHR 0x22] @ cstr realm @ [CHR 0x22]) else None,
          st1))"

text \<open>The label \<^verbatim>\<open>unauthorized\<close>.\<close>

definition unauthorized ::
  "env \<Rightarrow> ('r, 'a) lwan_request_t_scheme \<Rightarrow> lwan_value_t \<Rightarrow> char list \<Rightarrow> state \<Rightarrow>
   bool \<times> ('r, 'a) lwan_request_t_scheme \<times> lwan_value_t \<times> state" where
  "unauthorized env request authorization realm st =
     (case coro_malloc env (coro (conn request)) st of
        (False, st1) \<Rightarrow> (False, request, authorization, st1)
      | (True, st1) \<Rightarrow>
          (case coro_printf_authenticate env (coro (conn request)) realm st1 of
             (v, st2) \<Rightarrow>
               (False,
                request\<lparr>response := (response request)
                   \<lparr>headers := Some [\<lparr>kv_key = Some ''WWW-Authenticate'', kv_value = v\<rparr>,
                                     \<lparr>kv_key = None, kv_value = None\<rparr>]\<rparr>\<rparr>,
                authorization, st2)))"

text \<open>
  \<^verbatim>\<open>lwan_http_authorize\<close> returns its result together with the request, the caller's
  \<^verbatim>\<open>lwan_value_t\<close> and the state as the call leaves them. Advancing the pointer by
  \<^verbatim>\<open>basic_len\<close> drops six bytes from what can be read from it; the subtraction on
  \<^verbatim>\<open>size_t\<close> wraps.
\<close>

definition basic_len :: nat where
  "basic_len = length ''Basic ''"

definition lwan_http_authorize ::
  "env \<Rightarrow> ('r, 'a) lwan_request_t_scheme \<Rightarrow> lwan_value_t \<Rightarrow> char list \<Rightarrow> char list \<Rightarrow> state \<Rightarrow>
   bool \<times> ('r, 'a) lwan_request_t_scheme \<times> lwan_value_t \<times> state" where
  "lwan_http_authorize env request authorization realm password_file st =
     (case v_value authorization of
        None \<Rightarrow> unauthorized env request authorization realm st
      | Some v \<Rightarrow>
          if \<not> strncmp_eq v ''Basic '' basic_len
          then unauthorized env request authorization realm st
          else
            (let authorization1 =
                   authorization\<lparr>v_value := Some (drop basic_len v),
                                 v_len := v_len authorization - of_nat basic_len\<rparr>
             in case authorize env (coro (conn request)) authorization1 password_file st of
                  (True, st1) \<Rightarrow> (True, request, authorization1, st1)
                | (False, st1) \<Rightarrow> unauthorized env request authorization1 realm st1))"

subsection \<open>A Base64 decoder and a small configuration, for concrete runs\<close>

text \<open>
  Modelled from the spec: the Base64 decoder (\<^verbatim>\<open>base64.c\<close> is not part of the sources).
  The standard alphabet with \<open>=\<close> padding, four characters to three bytes; anything else
  is a decoding failure.
\<close>

definition b64_value :: "char \<Rightarrow> nat option" where
  "b64_value c =
     (let n = (of_char c :: nat)
      in if 65 \<le> n \<and> n \<le> 90 then Some (n - 65)
         else if 97 \<le> n \<and> n \<le> 122 then Some (n - 71)
         else if 48 \<le> n \<and> n \<le> 57 then Some (n + 4)
         else if n = 43 then Some 62
         else if n = 47 then Some 63
         else None)"

definition b64_quad :: "char \<Rightarrow> char \<Rightarrow> char \<Rightarrow> char \<Rightarrow> char list option" where
  "b64_quad a b c d =
     (case (b64_value a, b64_value b, b64_value c, b64_value d) of
        (Some x, Some y, Some z, Some w) \<Rightarrow>
          (let n = ((x * 64 + y) * 64 + z) * 64 + w
           in Some [char_of (n div 65536), char_of (n div 256), char_of n])
      | _ \<Rightarrow> None)"

definition b64_last :: "char \<Rightarrow> char \<Rightarrow> char \<Rightarrow> char \<Rightarrow> char list option" where
  "b64_last a b c d =
     (if c = CHR ''='' \<and> d = CHR ''='' then
        (case (b64_value a, b64_value b) of
           (Some x, Some y) \<Rightarrow> Some [char_of ((x * 64 + y) div 16)]
         | _ \<Rightarrow> None)
      else if d = CHR ''='' then
        (case (b64_value a, b64_value b, b64_value c) of
           (Some x, Some y, Some z) \<Rightarrow>
             (let n = (x * 64 + y) * 64 + z
              in Some [char_of (n div 1024), char_of (n div 4)])
         | _ \<Rightarrow> None)
      else b64_quad a b c d)"

fun b64_groups :: "char list \<Rightarrow> char list option" where
  "b64_groups (a # b # c # d # rest) =
     (if rest = [] then b64_last a b c d
      else case b64_quad a b c d of
             None \<Rightarrow> None
           | Some bs \<Rightarrow> map_option (\<lambda>r. bs @ r) (b64_groups rest))"
| "b64_groups [] = Some []"
| "b64_groups _ = None"

definition rfc4648_decode :: "char list option \<Rightarrow> 64 word \<Rightarrow> char list option" where
  "rfc4648_decode src n =
     (case src of
        None \<Rightarrow> None
      | Some s \<Rightarrow> b64_groups (take (unat n) s))"

definition key_value_line :: "char list \<Rightarrow> char list \<Rightarrow> config_line_t" where
  "key_value_line k v = \<lparr>line_type = CONFIG_LINE_TYPE_LINE, line_key = k, line_value = v\<rparr>"

definition section_line :: config_line_t where
  "section_line = \<lparr>line_type = CONFIG_LINE_TYPE_SECTION, line_key = [], line_value = []\<rparr>"

text \<open>
  A machine where every allocation succeeds, the decoder leaves a NUL byte behind the
  decoded bytes, the line buffer has 1024 bytes, and the
  password file \<^verbatim>\<open>/etc/realm\<close> holds \<^verbatim>\<open>alice = secret1\<close> and \<^verbatim>\<open>bob = secret2\<close>.
\<close>

definition example_env :: env where
  "example_env =
     \<lparr>base64_decode = rfc4648_decode,
      memory_after = (\<lambda>src n. []),
      buffer_size = 1024,
      config_files =
        (\<lambda>p. if p = ''/etc/realm''
             then Some [key_value_line ''alice'' ''secret1'', key_value_line ''bob'' ''secret2'']
             else None),
      alloc_ok = (\<lambda>n. True)\<rparr>"

definition initial_state :: state where
  "initial_state =
     \<lparr>realm_password_cache = [], allocs = 0, live = 0, open_files = 0, trace = []\<rparr>"

definition example_request :: "unit lwan_request_t" where
  "example_request = \<lparr>conn = \<lparr>coro = 0\<rparr>, response = \<lparr>headers = None\<rparr>\<rparr>"

text \<open>The entry built from that file, and the state once it is cached.\<close>

definition example_entry :: realm_password_file_t where
  "example_entry = \<lparr>entries = [(''alice'', ''secret1''), (''bob'', ''secret2'')]\<rparr>"

definition example_cached :: state where
  "example_cached =
     \<lparr>realm_password_cache = [(''/etc/realm'', example_entry)], allocs = 8, live = 6,
      open_files = 0, trace = [Config_open ''/etc/realm'', Config_close]\<rparr>"

subsection \<open>What the specification says about loading and destruction\<close>

text \<open>
  The password the specification promises for a username: that of the first
  \<^verbatim>\<open>username = password\<close> line of the file whose key is this username (first write wins).
\<close>

fun first_password :: "config_line_t list \<Rightarrow> char list \<Rightarrow> char list option" where
  "first_password [] u = None"
| "first_password (l # ls) u =
     (if streq (line_key l) u then Some (cstr (line_value l)) else first_password ls u)"

text \<open>
  What loading records for the lines of a file that repeat a username seen on an earlier
  line: the two duplicated strings of the line are released, then a warning is logged.
\<close>

fun duplicate_events :: "config_line_t list \<Rightarrow> config_line_t list \<Rightarrow> event list" where
  "duplicate_events seen [] = []"
| "duplicate_events seen (l # ls) =
     (if first_password seen (line_key l) \<noteq> None
      then [Free (cstr (line_key l) @ [NUL]), Free (cstr (line_value l) @ [NUL]),
            Status_warning (''Username entry already exists, ignoring: '' @
                            [CHR 0x22] @ cstr (line_key l) @ [CHR 0x22])]
      else []) @
     duplicate_events (seen @ [l]) ls"

text \<open>
  The block \<open>s @ [NUL]\<close> of a stored string once every byte of the string (the bytes
  before its first NUL) holds the sentinel 42, and the releases the specification asks of
  the destruction of an entry: for every stored pair the overwritten password and
  username, then the table, then the entry.
\<close>

definition wiped :: "char list \<Rightarrow> char list" where
  "wiped s =
     replicate (length (cstr s)) (char_of (42 :: nat)) @ drop (length (cstr s)) (s @ [NUL])"

definition destroy_events :: "realm_password_file_t \<Rightarrow> event list" where
  "destroy_events rpf =
     concat (map (\<lambda>(k, v). [Free (wiped v), Free (wiped k)]) (entries rpf)) @
     [Free_hash, Free_rpf]"

text \<open>The strings of a table are C strings: none holds a NUL byte.\<close>

definition c_strings :: "hash \<Rightarrow> bool" where
  "c_strings h = list_all (\<lambda>(k, v). NUL \<notin> set k \<and> NUL \<notin> set v) h"

text \<open>Two more password files: one with a section line, one that repeats \<^verbatim>\<open>alice\<close>.\<close>

definition malformed_env :: env where
  "malformed_env =
     example_env\<lparr>config_files :=
       (\<lambda>p. Some [key_value_line ''alice'' ''secret1'', section_line,
                  key_value_line ''bob'' ''secret2''])\<rparr>"

definition duplicate_env :: env where
  "duplicate_env =
     example_env\<lparr>config_files :=
       (\<lambda>p. Some [key_value_line ''alice'' ''secret1'', key_value_line ''alice'' ''other'',
                  key_value_line ''bob'' ''secret2''])\<rparr>"

text \<open>
  The same machine with a decoder that leaves the byte \<^verbatim>\<open>X\<close>, then a NUL, behind the
  decoded bytes.
\<close>

definition unterminated_env :: env where
  "unterminated_env = example_env\<lparr>memory_after := (\<lambda>src n. ''X'')\<rparr>"

section \<open>Properties\<close>

subsection \<open>C strings and the scheme prefix\<close>

lemma memchr_None_iff: "memchr d c = None \<longleftrightarrow> c \<notin> set d"
  by (induction d) auto

lemma memchr_first: "c \<notin> set u \<Longrightarrow> memchr (u @ c # p) c = Some (length u)"
  by (induction u) auto

lemma cstr_idem: "cstr (cstr s) = cstr s"
  by (simp add: cstr_def)

lemma cstr_no_NUL: "NUL \<notin> set s \<Longrightarrow> cstr s = s"
  unfolding cstr_def by (induction s) auto

lemma NUL_notin_cstr: "NUL \<notin> set (cstr s)"
  unfolding cstr_def by (induction s) auto

lemma cstr_append_NUL: "cstr (u @ NUL # p) = cstr u"
  unfolding cstr_def by (induction u) auto

lemma take_takeWhile_eq:
  "\<forall>c \<in> set xs. P c \<Longrightarrow> take (length xs) (takeWhile P v) = xs \<longleftrightarrow> take (length xs) v = xs"
proof (induction xs arbitrary: v)
  case Nil
  then show ?case by simp
next
  case (Cons x xs)
  then show ?case by (cases v) auto
qed

lemma basic_len_6: "basic_len = 6"
  by (simp add: basic_len_def)

lemma strncmp_Basic: "strncmp_eq v ''Basic '' 6 \<longleftrightarrow> take 6 v = ''Basic ''"
proof -
  have "take (length ''Basic '') (takeWhile (\<lambda>c. c \<noteq> NUL) v) = ''Basic ''
          \<longleftrightarrow> take (length ''Basic '') v = ''Basic ''"
    by (rule take_takeWhile_eq) simp
  then show ?thesis
    by (simp add: strncmp_eq_def cstr_def eval_nat_numeral)
qed

lemma memchr_Some_mem: "memchr d c = Some i \<Longrightarrow> c \<in> set d"
  using memchr_None_iff [of d c] by auto

lemma fst_unauthorized: "fst (unauthorized env request a realm st) = False"
  by (simp add: unauthorized_def split: prod.splits bool.splits)

lemma authorize_decode_failure:
  assumes "base64_decode env (v_value a) (v_len a) = None \<or>
           (\<exists>d. base64_decode env (v_value a) (v_len a) = Some d \<and>
                (CHR '':'' \<notin> set d \<or> buffer_size env \<le> length d))"
  shows "fst (authorize env co a pf st) = False"
  using assms
  by (auto simp: authorize_def Let_def memchr_None_iff split: prod.splits option.splits
      dest: memchr_Some_mem)

lemma lwan_http_authorize_prefix:
  assumes "v_value a0 = Some v" and "take 6 v = ''Basic ''"
  shows "lwan_http_authorize env request a0 realm pf st =
     (let a1 = a0\<lparr>v_value := Some (drop 6 v), v_len := v_len a0 - 6\<rparr>
      in case authorize env (coro (conn request)) a1 pf st of
           (True, st1) \<Rightarrow> (True, request, a1, st1)
         | (False, st1) \<Rightarrow> unauthorized env request a1 realm st1)"
  using assms by (simp add: lwan_http_authorize_def basic_len_6 strncmp_Basic)

lemma lwan_http_authorize_no_prefix:
  assumes "v_value a = None \<or> (\<exists>v. v_value a = Some v \<and> take 6 v \<noteq> ''Basic '')"
  shows "lwan_http_authorize env request a realm pf st = unauthorized env request a realm st"
  using assms by (auto simp: lwan_http_authorize_def basic_len_6 strncmp_Basic)

lemma fst_lwan_http_authorize:
  assumes "v_value a0 = Some v" and "take 6 v = ''Basic ''"
  shows "fst (lwan_http_authorize env request a0 realm pf st) =
         fst (authorize env (coro (conn request))
                (a0\<lparr>v_value := Some (drop 6 v), v_len := v_len a0 - 6\<rparr>) pf st)"
  by (simp add: lwan_http_authorize_prefix [OF assms] fst_unauthorized Let_def
      split: prod.splits bool.splits)

lemmas b64_simps = rfc4648_decode_def b64_last_def b64_quad_def b64_value_def char_of_eq_iff

text \<open>
  Claim C3. Whatever the payload handed to \<^verbatim>\<open>authorize\<close> (the Authorization value after
  the \<^verbatim>\<open>Basic \<close> prefix), the check returns false when the Base64 decoder fails, when the
  decoded bytes contain no \<open>:\<close>, and when the decoded length is at least the size of the
  configuration-line buffer; so does \<^verbatim>\<open>lwan_http_authorize\<close> on a value made of the prefix
  and that payload.
\<close>

theorem decode_failures_are_rejected:
  assumes "base64_decode env (v_value a) (v_len a) = None \<or>
           (\<exists>d. base64_decode env (v_value a) (v_len a) = Some d \<and>
                (CHR '':'' \<notin> set d \<or> buffer_size env \<le> length d))"
  shows "fst (authorize env co a pf st) = False \<and>
         (\<forall>a0 v. v_value a0 = Some v \<and> take 6 v = ''Basic '' \<and>
                 a = a0\<lparr>v_value := Some (drop 6 v), v_len := v_len a0 - 6\<rparr> \<longrightarrow>
                 fst (lwan_http_authorize env request a0 realm pf st) = False)"
  using authorize_decode_failure [OF assms] by (auto simp: fst_lwan_http_authorize)

lemma unauthorized_request:
  "fst (snd (unauthorized env request a realm st)) =
     (if alloc_ok env (allocs st)
      then request\<lparr>response := (response request)
             \<lparr>headers := Some
                [\<lparr>kv_key = Some ''WWW-Authenticate'',
                  kv_value = (if alloc_ok env (Suc (allocs st))
                              then Some (''Basic realm='' @ [CHR 0x22] @ cstr realm @ [CHR 0x22])
                              else None)\<rparr>,
                 \<lparr>kv_key = None, kv_value = None\<rparr>]\<rparr>\<rparr>
      else request)"
  by (simp add: unauthorized_def coro_malloc_def coro_printf_authenticate_def alloc_def
      split: prod.splits bool.splits)

lemma unauthorized_value: "fst (snd (snd (unauthorized env request a realm st))) = a"
  by (simp add: unauthorized_def split: prod.splits bool.splits)

theorem decode_failures_are_rejected_witness:
  "base64_decode example_env (Some ''!!!!'') 4 = None \<and>
   fst (authorize example_env 0 \<lparr>v_value = Some ''!!!!'', v_len = 4\<rparr> ''/etc/realm''
          initial_state) = False \<and>
   fst (lwan_http_authorize example_env example_request
          \<lparr>v_value = Some ''Basic !!!!'', v_len = 10\<rparr> ''realm'' ''/etc/realm''
          initial_state) = False \<and>
   base64_decode example_env (Some ''YWxpY2VzZWNyZXQx'') 16 = Some ''alicesecret1'' \<and>
   fst (authorize example_env 0 \<lparr>v_value = Some ''YWxpY2VzZWNyZXQx'', v_len = 16\<rparr>
          ''/etc/realm'' initial_state) = False \<and>
   base64_decode (example_env\<lparr>buffer_size := 13\<rparr>) (Some ''YWxpY2U6c2VjcmV0MQ=='') 20 =
     Some ''alice:secret1'' \<and>
   fst (authorize (example_env\<lparr>buffer_size := 13\<rparr>) 0
          \<lparr>v_value = Some ''YWxpY2U6c2VjcmV0MQ=='', v_len = 20\<rparr> ''/etc/realm''
          initial_state) = False"
proof -
  let ?a = "\<lparr>v_value = Some ''!!!!'', v_len = 4\<rparr>"
  let ?q = "\<lparr>v_value = Some ''Basic !!!!'', v_len = 10\<rparr>"
  let ?b = "\<lparr>v_value = Some ''YWxpY2VzZWNyZXQx'', v_len = 16\<rparr>"
  let ?c = "\<lparr>v_value = Some ''YWxpY2U6c2VjcmV0MQ=='', v_len = 20\<rparr>"
  have a: "base64_decode example_env (Some ''!!!!'') 4 = None"
    by (simp add: example_env_def b64_simps)
  have b: "base64_decode example_env (Some ''YWxpY2VzZWNyZXQx'') 16 = Some ''alicesecret1''"
    by (simp add: example_env_def b64_simps)
  have c0: "base64_decode example_env (Some ''YWxpY2U6c2VjcmV0MQ=='') 20 = Some ''alice:secret1''"
    by (simp add: example_env_def b64_simps)
  then have c: "base64_decode (example_env\<lparr>buffer_size := 13\<rparr>)
                  (Some ''YWxpY2U6c2VjcmV0MQ=='') 20 = Some ''alice:secret1''"
    by simp
  have ra: "fst (authorize example_env 0 ?a ''/etc/realm'' initial_state) = False \<and>
         (\<forall>a0 v. v_value a0 = Some v \<and> take 6 v = ''Basic '' \<and>
                 ?a = a0\<lparr>v_value := Some (drop 6 v), v_len := v_len a0 - 6\<rparr> \<longrightarrow>
                 fst (lwan_http_authorize example_env example_request a0 ''realm'' ''/etc/realm''
                        initial_state) = False)"
    using decode_failures_are_rejected
      [of example_env ?a 0 "''/etc/realm''" initial_state example_request "''realm''"]
    by (simp add: a)
  then have "v_value ?q = Some ''Basic !!!!'' \<and> take 6 ''Basic !!!!'' = ''Basic '' \<and>
       ?a = ?q\<lparr>v_value := Some (drop 6 ''Basic !!!!''), v_len := v_len ?q - 6\<rparr> \<longrightarrow>
       fst (lwan_http_authorize example_env example_request ?q ''realm'' ''/etc/realm''
              initial_state) = False"
    by blast
  then have ra0: "fst (lwan_http_authorize example_env example_request ?q ''realm'' ''/etc/realm''
              initial_state) = False"
    by simp
  have rb: "fst (authorize example_env 0 ?b ''/etc/realm'' initial_state) = False"
    using decode_failures_are_rejected [of example_env ?b 0 "''/etc/realm''" initial_state example_request "''realm''"]
    by (simp add: b)
  have rc: "fst (authorize (example_env\<lparr>buffer_size := 13\<rparr>) 0 ?c ''/etc/realm''
              initial_state) = False"
    using decode_failures_are_rejected
      [of "example_env\<lparr>buffer_size := 13\<rparr>" ?c 0 "''/etc/realm''" initial_state
        example_request "''realm''"]
    by (simp add: c0)
  from a b c ra ra0 rb rc show ?thesis by simp
qed

text \<open>
  Claim C2. When the Authorization value is absent, or present without the exact prefix
  \<^verbatim>\<open>Basic \<close>, \<^verbatim>\<open>lwan_http_authorize\<close> returns false; and when the coroutine allocator
  serves the header array and the formatted value, the response carries a two-entry header
  list: \<^verbatim>\<open>WWW-Authenticate\<close> with the value \<^verbatim>\<open>Basic realm="<realm>"\<close>, then the
  NULL terminator entry. When \<^verbatim>\<open>coro_malloc\<close> returns NULL the request is left as it was.
\<close>

theorem missing_or_malformed_scheme_is_challenged:
  assumes "v_value a = None \<or> (\<exists>v. v_value a = Some v \<and> take 6 v \<noteq> ''Basic '')"
  shows "fst (lwan_http_authorize env request a realm pf st) = False \<and>
         (alloc_ok env (allocs st) \<and> alloc_ok env (Suc (allocs st)) \<longrightarrow>
            fst (snd (lwan_http_authorize env request a realm pf st)) =
              request\<lparr>response := (response request)
                \<lparr>headers := Some
                   [\<lparr>kv_key = Some ''WWW-Authenticate'',
                     kv_value = Some (''Basic realm='' @ [CHR 0x22] @ cstr realm @ [CHR 0x22])\<rparr>,
                    \<lparr>kv_key = None, kv_value = None\<rparr>]\<rparr>\<rparr>) \<and>
         (\<not> alloc_ok env (allocs st) \<longrightarrow>
            fst (snd (lwan_http_authorize env request a realm pf st)) = request)"
  by (simp add: lwan_http_authorize_no_prefix [OF assms] fst_unauthorized unauthorized_request)

theorem missing_or_malformed_scheme_is_challenged_witness:
  "lwan_http_authorize example_env example_request \<lparr>v_value = None, v_len = 0\<rparr> ''lwan''
     ''/etc/realm'' initial_state =
   (False,
    \<lparr>conn = \<lparr>coro = 0\<rparr>,
     response = \<lparr>headers = Some
        [\<lparr>kv_key = Some ''WWW-Authenticate'',
          kv_value = Some (''Basic realm='' @ [CHR 0x22] @ ''lwan'' @ [CHR 0x22])\<rparr>,
         \<lparr>kv_key = None, kv_value = None\<rparr>]\<rparr>\<rparr>,
    \<lparr>v_value = None, v_len = 0\<rparr>,
    initial_state\<lparr>allocs := 2\<rparr>) \<and>
   fst (snd (lwan_http_authorize example_env example_request
      \<lparr>v_value = Some ''basic YWxpY2U6c2VjcmV0MQ=='', v_len = 26\<rparr> ''lwan'' ''/etc/realm''
      initial_state)) =
    \<lparr>conn = \<lparr>coro = 0\<rparr>,
     response = \<lparr>headers = Some
        [\<lparr>kv_key = Some ''WWW-Authenticate'',
          kv_value = Some (''Basic realm='' @ [CHR 0x22] @ ''lwan'' @ [CHR 0x22])\<rparr>,
         \<lparr>kv_key = None, kv_value = None\<rparr>]\<rparr>\<rparr>"
proof -
  let ?a = "\<lparr>v_value = None, v_len = 0\<rparr>"
  let ?b = "\<lparr>v_value = Some ''basic YWxpY2U6c2VjcmV0MQ=='', v_len = 26\<rparr>"
  have ok: "alloc_ok example_env (allocs initial_state) \<and>
            alloc_ok example_env (Suc (allocs initial_state))"
    by (simp add: example_env_def)
  have "fst (lwan_http_authorize example_env example_request ?a ''lwan'' ''/etc/realm''
               initial_state) = False \<and>
        fst (snd (lwan_http_authorize example_env example_request ?a ''lwan'' ''/etc/realm''
               initial_state)) =
          example_request\<lparr>response := (response example_request)
                \<lparr>headers := Some
                   [\<lparr>kv_key = Some ''WWW-Authenticate'',
                     kv_value = Some (''Basic realm='' @ [CHR 0x22] @ cstr ''lwan'' @ [CHR 0x22])\<rparr>,
                    \<lparr>kv_key = None, kv_value = None\<rparr>]\<rparr>\<rparr>"
    using missing_or_malformed_scheme_is_challenged
      [of ?a example_env example_request "''lwan''" "''/etc/realm''" initial_state] ok
    by simp
  moreover have "fst (snd (lwan_http_authorize example_env example_request ?b ''lwan''
               ''/etc/realm'' initial_state)) =
          example_request\<lparr>response := (response example_request)
                \<lparr>headers := Some
                   [\<lparr>kv_key = Some ''WWW-Authenticate'',
                     kv_value = Some (''Basic realm='' @ [CHR 0x22] @ cstr ''lwan'' @ [CHR 0x22])\<rparr>,
                    \<lparr>kv_key = None, kv_value = None\<rparr>]\<rparr>\<rparr>"
    using missing_or_malformed_scheme_is_challenged
      [of ?b example_env example_request "''lwan''" "''/etc/realm''" initial_state] ok
    by simp
  moreover have "snd (snd (lwan_http_authorize example_env example_request ?a ''lwan''
       ''/etc/realm'' initial_state)) = (?a, initial_state\<lparr>allocs := 2\<rparr>)"
    by (simp add: lwan_http_authorize_def unauthorized_def coro_malloc_def
        coro_printf_authenticate_def alloc_def example_env_def initial_state_def)
  ultimately show ?thesis
    by (simp add: example_request_def cstr_def prod_eq_iff)
qed

subsection \<open>The credential check\<close>

lemma hash_find_cstr: "hash_find h (cstr k) = hash_find h k"
  by (simp add: hash_find_def streq_def cstr_idem)

lemma authorize_split:
  assumes cache: "cache_coro_get_and_ref_entry env co pf st = (Some rpf, st1)"
    and dec: "base64_decode env (v_value a) (v_len a) = Some (u @ CHR '':'' # p)"
    and first: "CHR '':'' \<notin> set u"
    and size: "length (u @ CHR '':'' # p) < buffer_size env"
  shows "fst (authorize env co a pf st) =
           (case hash_find (entries rpf) u of
              None \<Rightarrow> False
            | Some looked_password \<Rightarrow>
                cstr (p @ memory_after env (v_value a) (v_len a)) = cstr looked_password)"
proof -
  have upd: "(u @ CHR '':'' # p)[length u := NUL] = u @ NUL # p"
    by (simp add: list_update_length)
  have "hash_find (entries rpf) (u @ NUL # p) = hash_find (entries rpf) (cstr (u @ NUL # p))"
    by (simp only: hash_find_cstr)
  also have "\<dots> = hash_find (entries rpf) u"
    by (simp only: cstr_append_NUL hash_find_cstr)
  finally have find: "hash_find (entries rpf) (u @ NUL # p) = hash_find (entries rpf) u" .
  from size have nsize: "\<not> buffer_size env \<le> length (u @ CHR '':'' # p)"
    by simp
  have rest: "drop (Suc (length u)) (u @ NUL # p) = p"
    by simp
  show ?thesis
    unfolding authorize_def cache dec Let_def
    by (simp only: prod.case option.case nsize if_False memchr_first [OF first] upd find rest
        fst_conv)
      (simp add: streq_def split: option.split)
qed

lemma cstr_append_in: "NUL \<in> set p \<Longrightarrow> cstr (p @ t) = cstr p"
  unfolding cstr_def by (induction p) auto

lemma cstr_append_out: "NUL \<notin> set p \<Longrightarrow> cstr (p @ t) = p @ cstr t"
  unfolding cstr_def by (induction p) auto

lemmas run_simps =
  create_realm_file_def cache_coro_get_and_ref_entry_def malloc_def alloc_def strdup_def
  hash_str_new_def hash_add_unique_def hash_find_def streq_def cstr_def config_open_def
  config_read_line_def config_error_def config_close_def log_event_def c_free_def
  error_close_def error_no_close_def hash_free_def fourty_two_and_free_def free_rpf_def
  key_value_line_def section_line_def initial_state_def EEXIST_def ENOMEM_def

lemma example_create:
  "create_realm_file example_env ''/etc/realm'' initial_state =
     (Some example_entry, example_cached\<lparr>realm_password_cache := []\<rparr>)"
  by (simp add: run_simps example_env_def example_entry_def example_cached_def read_lines.simps)

lemma example_get_and_ref:
  "cache_coro_get_and_ref_entry example_env co ''/etc/realm'' initial_state =
     (Some example_entry, example_cached)"
  unfolding cache_coro_get_and_ref_entry_def example_create
  by (simp add: initial_state_def example_cached_def)

lemma unterminated_get_and_ref:
  "cache_coro_get_and_ref_entry unterminated_env co ''/etc/realm'' initial_state =
     (Some example_entry, example_cached)"
proof -
  have "create_realm_file unterminated_env ''/etc/realm'' initial_state =
     (Some example_entry, example_cached\<lparr>realm_password_cache := []\<rparr>)"
    by (simp add: run_simps unterminated_env_def example_env_def example_entry_def
        example_cached_def read_lines.simps)
  then show ?thesis
    unfolding cache_coro_get_and_ref_entry_def
    by (simp add: initial_state_def example_cached_def)
qed

lemma example_index:
  "hash_find (entries example_entry) ''alice'' = Some ''secret1''"
  "hash_find (entries example_entry) ''bob'' = Some ''secret2''"
  "hash_find (entries example_entry) ''carol'' = None"
  by (simp_all add: example_entry_def hash_find_def streq_def cstr_def)

text \<open>
  Claim C1. With an entry for the password file whose index maps \<^verbatim>\<open>alice\<close> to
  \<^verbatim>\<open>secret1\<close> and \<^verbatim>\<open>bob\<close> to \<^verbatim>\<open>secret2\<close> and has no \<^verbatim>\<open>carol\<close>, an Authorization value
  \<^verbatim>\<open>Basic \<close> followed by a payload that decodes to \<^verbatim>\<open>alice:secret1\<close> is accepted when the
  decoder leaves a NUL byte behind the decoded bytes, and refused when it leaves another
  byte there; one that decodes to \<^verbatim>\<open>alice:wrong\<close> or to \<^verbatim>\<open>carol:anything\<close> is refused
  whatever lies behind the buffer. The concrete runs after it send the three Base64
  texts, with the entry built from the file.
\<close>

theorem example_credentials:
  assumes cache: "cache_coro_get_and_ref_entry env (coro (conn request)) pf st = (Some rpf, st1)"
    and alice: "hash_find (entries rpf) ''alice'' = Some ''secret1''"
    and bob: "hash_find (entries rpf) ''bob'' = Some ''secret2''"
    and carol: "hash_find (entries rpf) ''carol'' = None"
    and size: "14 < buffer_size env"
    and v: "v_value a = Some (''Basic '' @ payload)"
  shows "(base64_decode env (Some payload) (v_len a - 6) = Some ''alice:secret1'' \<and>
          cstr (memory_after env (Some payload) (v_len a - 6)) = [] \<longrightarrow>
            fst (lwan_http_authorize env request a realm pf st) = True) \<and>
         (base64_decode env (Some payload) (v_len a - 6) = Some ''alice:secret1'' \<and>
          cstr (memory_after env (Some payload) (v_len a - 6)) \<noteq> [] \<longrightarrow>
            fst (lwan_http_authorize env request a realm pf st) = False) \<and>
         (base64_decode env (Some payload) (v_len a - 6) = Some ''alice:wrong'' \<longrightarrow>
            fst (lwan_http_authorize env request a realm pf st) = False) \<and>
         (base64_decode env (Some payload) (v_len a - 6) = Some ''carol:anything'' \<longrightarrow>
            fst (lwan_http_authorize env request a realm pf st) = False)"
proof -
  let ?a1 = "a\<lparr>v_value := Some (drop 6 (''Basic '' @ payload)), v_len := v_len a - 6\<rparr>"
  let ?t = "memory_after env (Some payload) (v_len a - 6)"
  have res: "fst (lwan_http_authorize env request a realm pf st) =
             fst (authorize env (coro (conn request)) ?a1 pf st)"
    by (rule fst_lwan_http_authorize [OF v]) simp
  have dec: "base64_decode env (v_value ?a1) (v_len ?a1) =
             base64_decode env (Some payload) (v_len a - 6)"
    by simp
  have split: "fst (authorize env (coro (conn request)) ?a1 pf st) =
           (case hash_find (entries rpf) u of
              None \<Rightarrow> False
            | Some looked_password \<Rightarrow> cstr (p @ ?t) = cstr looked_password)"
    if "base64_decode env (Some payload) (v_len a - 6) = Some (u @ CHR '':'' # p)"
      and "CHR '':'' \<notin> set u" and "length (u @ CHR '':'' # p) < buffer_size env" for u p
    using authorize_split [OF cache, of ?a1 u p] that dec by (simp cong: option.case_cong)
  have secret: "cstr (''secret1'' @ ?t) = ''secret1'' @ cstr ?t"
    by (rule cstr_append_out) simp
  have wrong: "cstr (''wrong'' @ ?t) = ''wrong'' @ cstr ?t"
    by (rule cstr_append_out) simp
  have one: "fst (authorize env (coro (conn request)) ?a1 pf st) = (cstr ?t = [])"
    if "base64_decode env (Some payload) (v_len a - 6) = Some ''alice:secret1''"
    using split [of "''alice''" "''secret1''"] that size alice
    by (simp add: secret) (simp add: cstr_def)
  have two: "fst (authorize env (coro (conn request)) ?a1 pf st) = False"
    if "base64_decode env (Some payload) (v_len a - 6) = Some ''alice:wrong''"
    using split [of "''alice''" "''wrong''"] that size alice
    by (simp add: wrong) (simp add: cstr_def)
  have three: "fst (authorize env (coro (conn request)) ?a1 pf st) = False"
    if "base64_decode env (Some payload) (v_len a - 6) = Some ''carol:anything''"
    using split [of "''carol''" "''anything''"] that size carol by simp
  from one two three show ?thesis
    unfolding res by blast
qed

theorem example_credentials_witness:
  "fst (lwan_http_authorize example_env example_request
          \<lparr>v_value = Some ''Basic YWxpY2U6c2VjcmV0MQ=='', v_len = 26\<rparr> ''lwan'' ''/etc/realm''
          initial_state) = True \<and>
   fst (lwan_http_authorize unterminated_env example_request
          \<lparr>v_value = Some ''Basic YWxpY2U6c2VjcmV0MQ=='', v_len = 26\<rparr> ''lwan'' ''/etc/realm''
          initial_state) = False \<and>
   fst (lwan_http_authorize example_env example_request
          \<lparr>v_value = Some ''Basic YWxpY2U6d3Jvbmc='', v_len = 22\<rparr> ''lwan'' ''/etc/realm''
          initial_state) = False \<and>
   fst (lwan_http_authorize example_env example_request
          \<lparr>v_value = Some ''Basic Y2Fyb2w6YW55dGhpbmc='', v_len = 26\<rparr> ''lwan'' ''/etc/realm''
          initial_state) = False"
proof -
  have cache: "cache_coro_get_and_ref_entry example_env (coro (conn example_request))
                 ''/etc/realm'' initial_state = (Some example_entry, example_cached)"
    by (rule example_get_and_ref)
  have ucache: "cache_coro_get_and_ref_entry unterminated_env (coro (conn example_request))
                 ''/etc/realm'' initial_state = (Some example_entry, example_cached)"
    by (rule unterminated_get_and_ref)
  have size: "14 < buffer_size example_env" and usize: "14 < buffer_size unterminated_env"
    by (simp_all add: unterminated_env_def example_env_def)
  have d1: "base64_decode example_env (Some ''YWxpY2U6c2VjcmV0MQ=='') (26 - 6) =
              Some ''alice:secret1''"
    and d2: "base64_decode example_env (Some ''YWxpY2U6d3Jvbmc='') (22 - 6) = Some ''alice:wrong''"
    and d3: "base64_decode example_env (Some ''Y2Fyb2w6YW55dGhpbmc='') (26 - 6) =
              Some ''carol:anything''"
    and d4: "base64_decode unterminated_env (Some ''YWxpY2U6c2VjcmV0MQ=='') (26 - 6) =
              Some ''alice:secret1''"
    by (simp_all add: unterminated_env_def example_env_def b64_simps)
  have t1: "cstr (memory_after example_env (Some ''YWxpY2U6c2VjcmV0MQ=='') (26 - 6)) = []"
    and t4: "cstr (memory_after unterminated_env (Some ''YWxpY2U6c2VjcmV0MQ=='') (26 - 6)) \<noteq> []"
    by (simp_all add: unterminated_env_def example_env_def cstr_def)
  show ?thesis
    using
      example_credentials [OF cache example_index size,
        of "\<lparr>v_value = Some ''Basic YWxpY2U6c2VjcmV0MQ=='', v_len = 26\<rparr>"
           "''YWxpY2U6c2VjcmV0MQ==''" "''lwan''"]
      example_credentials [OF ucache example_index usize,
        of "\<lparr>v_value = Some ''Basic YWxpY2U6c2VjcmV0MQ=='', v_len = 26\<rparr>"
           "''YWxpY2U6c2VjcmV0MQ==''" "''lwan''"]
      example_credentials [OF cache example_index size,
        of "\<lparr>v_value = Some ''Basic YWxpY2U6d3Jvbmc='', v_len = 22\<rparr>"
           "''YWxpY2U6d3Jvbmc=''" "''lwan''"]
      example_credentials [OF cache example_index size,
        of "\<lparr>v_value = Some ''Basic Y2Fyb2w6YW55dGhpbmc='', v_len = 26\<rparr>"
           "''Y2Fyb2w6YW55dGhpbmc=''" "''lwan''"]
      d1 d2 d3 d4 t1 t4
    by simp
qed

text \<open>
  Claim C4, as amended. When the username is found, the stored password is compared with
  the supplied password read as a C string from the byte after the first colon: the bytes
  up to, not including, the first NUL byte. When the decoded bytes after the colon hold a
  NUL, the bytes after it are ignored. When they hold none and the decoder leaves a NUL
  byte behind the decoded bytes, the check succeeds exactly when the stored password is
  all the bytes after the colon.
\<close>

theorem password_compared_as_c_string:
  assumes cache: "cache_coro_get_and_ref_entry env co pf st = (Some rpf, st1)"
    and dec: "base64_decode env (v_value a) (v_len a) = Some (u @ CHR '':'' # p)"
    and first: "CHR '':'' \<notin> set u"
    and size: "length (u @ CHR '':'' # p) < buffer_size env"
    and found: "hash_find (entries rpf) u = Some looked_password"
  shows "(NUL \<in> set p \<longrightarrow>
            (fst (authorize env co a pf st) \<longleftrightarrow> cstr p = cstr looked_password)) \<and>
         (NUL \<notin> set p \<and> cstr (memory_after env (v_value a) (v_len a)) = [] \<longrightarrow>
            (fst (authorize env co a pf st) \<longleftrightarrow> p = cstr looked_password))"
  using authorize_split [OF cache dec first size] found
  by (auto simp: cstr_append_in cstr_append_out)

theorem password_compared_as_c_string_witness:
  "fst (authorize example_env 0 \<lparr>v_value = Some ''YWxpY2U6c2VjcmV0MQ=='', v_len = 20\<rparr>
          ''/etc/realm'' initial_state) = True \<and>
   fst (authorize example_env 0 \<lparr>v_value = Some ''YWxpY2U6d3Jvbmc='', v_len = 16\<rparr>
          ''/etc/realm'' initial_state) = False \<and>
   fst (authorize unterminated_env 0 \<lparr>v_value = Some ''YWxpY2U6c2VjcmV0MQB4'', v_len = 20\<rparr>
          ''/etc/realm'' initial_state) = True"
proof -
  have cache: "cache_coro_get_and_ref_entry example_env 0 ''/etc/realm'' initial_state =
                 (Some example_entry, example_cached)"
    by (rule example_get_and_ref)
  have ucache: "cache_coro_get_and_ref_entry unterminated_env 0 ''/etc/realm'' initial_state =
                 (Some example_entry, example_cached)"
    by (rule unterminated_get_and_ref)
  have d1: "base64_decode example_env
              (v_value \<lparr>v_value = Some ''YWxpY2U6c2VjcmV0MQ=='', v_len = 20\<rparr>)
              (v_len \<lparr>v_value = Some ''YWxpY2U6c2VjcmV0MQ=='', v_len = 20\<rparr>) =
            Some (''alice'' @ CHR '':'' # ''secret1'')"
    and d2: "base64_decode example_env
              (v_value \<lparr>v_value = Some ''YWxpY2U6d3Jvbmc='', v_len = 16\<rparr>)
              (v_len \<lparr>v_value = Some ''YWxpY2U6d3Jvbmc='', v_len = 16\<rparr>) =
            Some (''alice'' @ CHR '':'' # ''wrong'')"
    and d3: "base64_decode unterminated_env
              (v_value \<lparr>v_value = Some ''YWxpY2U6c2VjcmV0MQB4'', v_len = 20\<rparr>)
              (v_len \<lparr>v_value = Some ''YWxpY2U6c2VjcmV0MQB4'', v_len = 20\<rparr>) =
            Some (''alice'' @ CHR '':'' # (''secret1'' @ [NUL, CHR ''x'']))"
    by (simp_all add: unterminated_env_def example_env_def b64_simps)
  have first: "CHR '':'' \<notin> set ''alice''"
    by simp
  have s1: "length (''alice'' @ CHR '':'' # ''secret1'') < buffer_size example_env"
    and s2: "length (''alice'' @ CHR '':'' # ''wrong'') < buffer_size example_env"
    and s3: "length (''alice'' @ CHR '':'' # (''secret1'' @ [NUL, CHR ''x''])) <
               buffer_size unterminated_env"
    by (simp_all add: unterminated_env_def example_env_def)
  have t: "cstr (memory_after example_env (Some ''YWxpY2U6c2VjcmV0MQ=='') 20) = []"
    "cstr (memory_after example_env (Some ''YWxpY2U6d3Jvbmc='') 16) = []"
    by (simp_all add: example_env_def cstr_def)
  show ?thesis
    using password_compared_as_c_string [OF cache d1 first s1 example_index(1)]
      password_compared_as_c_string [OF cache d2 first s2 example_index(1)]
      password_compared_as_c_string [OF ucache d3 first s3 example_index(1)] t
    by (simp add: cstr_def)
qed

text \<open>
  Claim C4 as stated fails: the credential \<^verbatim>\<open>alice:secret1\<close> followed by a NUL byte and
  \<^verbatim>\<open>x\<close> is accepted for the stored password \<^verbatim>\<open>secret1\<close>, although the bytes after the
  colon differ from it.
\<close>

theorem password_bytes_after_nul_are_ignored:
  "base64_decode example_env (Some ''YWxpY2U6c2VjcmV0MQB4'') 20 =
     Some (''alice'' @ CHR '':'' # ''secret1'' @ [NUL, CHR ''x'']) \<and>
   cache_coro_get_and_ref_entry example_env 0 ''/etc/realm'' initial_state =
     (Some example_entry, example_cached) \<and>
   hash_find (entries example_entry) ''alice'' = Some ''secret1'' \<and>
   ''secret1'' @ [NUL, CHR ''x''] \<noteq> ''secret1'' \<and>
   fst (authorize example_env 0 \<lparr>v_value = Some ''YWxpY2U6c2VjcmV0MQB4'', v_len = 20\<rparr>
          ''/etc/realm'' initial_state) = True"
proof -
  have dec: "base64_decode example_env (Some ''YWxpY2U6c2VjcmV0MQB4'') 20 =
     Some (''alice'' @ CHR '':'' # ''secret1'' @ [NUL, CHR ''x''])"
    by (simp add: example_env_def b64_simps)
  have "fst (authorize example_env 0 \<lparr>v_value = Some ''YWxpY2U6c2VjcmV0MQB4'', v_len = 20\<rparr>
          ''/etc/realm'' initial_state) =
        (case hash_find (entries example_entry) ''alice'' of
           None \<Rightarrow> False
         | Some looked_password \<Rightarrow>
             cstr ((''secret1'' @ [NUL, CHR ''x'']) @
                   memory_after example_env
                     (v_value \<lparr>v_value = Some ''YWxpY2U6c2VjcmV0MQB4'', v_len = 20\<rparr>)
                     (v_len \<lparr>v_value = Some ''YWxpY2U6c2VjcmV0MQB4'', v_len = 20\<rparr>)) =
             cstr looked_password)"
    by (rule authorize_split [OF example_get_and_ref]) (simp_all add: dec, simp add: example_env_def)
  then have "fst (authorize example_env 0
                 \<lparr>v_value = Some ''YWxpY2U6c2VjcmV0MQB4'', v_len = 20\<rparr>
                 ''/etc/realm'' initial_state) = True"
    by (simp add: example_index cstr_def)
  with dec example_index(1) example_get_and_ref [of 0] show ?thesis
    by simp
qed

text \<open>
  Claim C5, as amended. \<^verbatim>\<open>authorize\<close> resolves the cache entry first and decodes the
  payload afterwards: whatever the payload, the cache, the allocation count, the live
  blocks and the open files after the call are those \<^verbatim>\<open>cache_coro_get_and_ref_entry\<close>
  leaves, and the trace is extended by at most the release of the decoded buffer. A missing
  entry and an undecodable payload both give false in exactly that state.
\<close>

theorem cache_entry_is_resolved_first:
  assumes run: "authorize env co a pf st = (ok, st2)"
    and cache: "cache_coro_get_and_ref_entry env co pf st = (r, st1)"
  shows "realm_password_cache st2 = realm_password_cache st1 \<and>
         allocs st2 = allocs st1 \<and> live st2 = live st1 \<and> open_files st2 = open_files st1 \<and>
         (trace st2 = trace st1 \<or> (\<exists>b. trace st2 = trace st1 @ [Free b])) \<and>
         (r = None \<longrightarrow> \<not> ok \<and> st2 = st1) \<and>
         (base64_decode env (v_value a) (v_len a) = None \<longrightarrow> \<not> ok \<and> st2 = st1)"
  using run cache
  by (auto simp: authorize_def Let_def c_free_def log_event_def
      split: option.splits if_splits)

text \<open>
  Claim C5 as stated fails: with an empty cache, a payload that does not decode still has
  the password file opened, read and installed in the cache before the call returns false.
\<close>

theorem undecodable_payload_still_builds_entry:
  "base64_decode example_env (Some ''!!!!'') 4 = None \<and>
   realm_password_cache initial_state = [] \<and>
   trace initial_state = [] \<and>
   authorize example_env 0 \<lparr>v_value = Some ''!!!!'', v_len = 4\<rparr> ''/etc/realm'' initial_state =
     (False,
      \<lparr>realm_password_cache =
         [(''/etc/realm'', \<lparr>entries = [(''alice'', ''secret1''), (''bob'', ''secret2'')]\<rparr>)],
       allocs = 8, live = 6, open_files = 0,
       trace = [Config_open ''/etc/realm'', Config_close]\<rparr>)"
proof -
  have dec: "base64_decode example_env (Some ''!!!!'') 4 = None"
    by (simp add: example_env_def b64_simps)
  have "authorize example_env 0 \<lparr>v_value = Some ''!!!!'', v_len = 4\<rparr> ''/etc/realm''
          initial_state = (False, example_cached)"
    unfolding authorize_def example_get_and_ref by (simp add: dec)
  with dec show ?thesis
    by (simp add: example_cached_def example_entry_def initial_state_def)
qed

theorem cache_entry_is_resolved_first_witness:
  "cache_coro_get_and_ref_entry example_env 0 ''/etc/realm'' initial_state =
     (Some example_entry, example_cached) \<and>
   authorize example_env 0 \<lparr>v_value = Some ''!!!!'', v_len = 4\<rparr> ''/etc/realm'' initial_state =
     (False, example_cached)"
proof -
  have dec: "base64_decode example_env (Some ''!!!!'') 4 = None"
    by (simp add: example_env_def b64_simps)
  obtain ok st2 where run:
    "authorize example_env 0 \<lparr>v_value = Some ''!!!!'', v_len = 4\<rparr> ''/etc/realm''
       initial_state = (ok, st2)"
    by (cases "authorize example_env 0 \<lparr>v_value = Some ''!!!!'', v_len = 4\<rparr> ''/etc/realm''
       initial_state")
  from cache_entry_is_resolved_first [OF run example_get_and_ref] dec
  have "\<not> ok \<and> st2 = example_cached"
    by simp
  with run example_get_and_ref [of 0] show ?thesis
    by simp
qed

lemma unauthorized_frame:
  "unauthorized env request a realm st = (ok, request1, a1, st1) \<Longrightarrow>
     \<not> ok \<and> a1 = a \<and>
     request1 = request\<lparr>response := (response request)\<lparr>headers := headers (response request1)\<rparr>\<rparr>"
  by (auto simp: unauthorized_def split: prod.splits bool.splits)

text \<open>
  Claim C10. When the Authorization value is present and starts with \<^verbatim>\<open>Basic \<close>, the
  caller's \<^verbatim>\<open>lwan_value_t\<close> comes back with its pointer advanced by six bytes and its
  length decreased by six, on allow and on deny alike; the credential check ran on that
  advanced value; the request is unchanged on allow and differs at most in
  \<^verbatim>\<open>response.headers\<close> on deny.
\<close>

theorem authorization_value_is_advanced:
  assumes v: "v_value a = Some v" and prefix: "take 6 v = ''Basic ''"
    and run: "lwan_http_authorize env request a realm pf st = (ok, request1, a1, st1)"
  shows "a1 = a\<lparr>v_value := Some (drop 6 v), v_len := v_len a - 6\<rparr> \<and>
         ok = fst (authorize env (coro (conn request)) a1 pf st) \<and>
         (ok \<longrightarrow> request1 = request) \<and>
         (\<not> ok \<longrightarrow>
            request1 =
              request\<lparr>response := (response request)\<lparr>headers := headers (response request1)\<rparr>\<rparr>)"
proof -
  let ?a1 = "a\<lparr>v_value := Some (drop 6 v), v_len := v_len a - 6\<rparr>"
  obtain b st0 where auth: "authorize env (coro (conn request)) ?a1 pf st = (b, st0)"
    by (cases "authorize env (coro (conn request)) ?a1 pf st")
  show ?thesis
  proof (cases b)
    case True
    with run auth show ?thesis
      by (simp add: lwan_http_authorize_prefix [OF v prefix] Let_def)
  next
    case False
    with run auth have un: "unauthorized env request ?a1 realm st0 = (ok, request1, a1, st1)"
      by (simp add: lwan_http_authorize_prefix [OF v prefix] Let_def)
    from unauthorized_frame [OF un] auth False show ?thesis
      by simp
  qed
qed

theorem authorization_value_is_advanced_witness:
  "lwan_http_authorize example_env example_request
     \<lparr>v_value = Some ''Basic YWxpY2U6c2VjcmV0MQ=='', v_len = 26\<rparr> ''lwan'' ''/etc/realm''
     initial_state =
   (True, example_request, \<lparr>v_value = Some ''YWxpY2U6c2VjcmV0MQ=='', v_len = 20\<rparr>,
    example_cached\<lparr>trace := trace example_cached @ [Free (''alice'' @ NUL # ''secret1'')]\<rparr>)"
proof -
  let ?a = "\<lparr>v_value = Some ''Basic YWxpY2U6c2VjcmV0MQ=='', v_len = 26\<rparr>"
  let ?b = "\<lparr>v_value = Some ''YWxpY2U6c2VjcmV0MQ=='', v_len = 20\<rparr>"
  have dec: "base64_decode example_env (Some ''YWxpY2U6c2VjcmV0MQ=='') 20 = Some ''alice:secret1''"
    by (simp add: example_env_def b64_simps)
  have auth: "authorize example_env 0 ?b ''/etc/realm'' initial_state =
          (True, example_cached\<lparr>trace := trace example_cached @ [Free (''alice'' @ NUL # ''secret1'')]\<rparr>)"
    unfolding authorize_def example_get_and_ref
    by (simp add: dec Let_def)
      (simp add: c_free_def log_event_def example_entry_def hash_find_def streq_def cstr_def
        example_env_def example_cached_def Let_def)
  obtain ok request1 a1 st1 where run:
    "lwan_http_authorize example_env example_request ?a ''lwan'' ''/etc/realm'' initial_state =
       (ok, request1, a1, st1)"
    by (metis prod_cases4)
  have st: "st1 = snd (authorize example_env 0 ?b ''/etc/realm'' initial_state)"
    using run auth by (simp add: lwan_http_authorize_def basic_len_6 strncmp_Basic example_request_def)
  from authorization_value_is_advanced [OF _ _ run, of "''Basic YWxpY2U6c2VjcmV0MQ==''"] auth
  have "a1 = ?b \<and> ok = True \<and> request1 = example_request"
    by (simp add: example_request_def)
  with run st auth show ?thesis
    by simp
qed

subsection \<open>Loading a password file\<close>

lemma read_lines_stopped:
  "error_message f \<noteq> None \<Longrightarrow> read_lines env f h st = (Loop_end, f, h, st)"
  by (subst read_lines.simps) (simp add: config_read_line_def)

lemma read_lines_Nil:
  "remaining f = [] \<Longrightarrow> read_lines env f h st = (Loop_end, f, h, st)"
  by (subst read_lines.simps) (simp add: config_read_line_def)

lemma read_lines_other:
  assumes "error_message f = None" and "remaining f = l # ls"
    and "line_type l \<noteq> CONFIG_LINE_TYPE_LINE"
  shows "read_lines env f h st =
           (Loop_end, f\<lparr>remaining := ls, error_message := Some ''Expected username = password''\<rparr>,
            h, st)"
  using assms
  by (subst read_lines.simps)
    (simp add: config_read_line_def config_error_def read_lines_stopped
      split: config_line_type_t.splits)

lemma read_lines_reports:
  assumes "read_lines env f h st = (Loop_end, f1, h1, st1)"
    and "error_message f = None"
    and "\<exists>l \<in> set (remaining f). line_type l \<noteq> CONFIG_LINE_TYPE_LINE"
  shows "error_message f1 \<noteq> None"
  using assms
proof (induction "remaining f" arbitrary: f h st)
  case Nil
  then show ?case by simp
next
  case (Cons l ls)
  from Cons.hyps(2) have rem: "remaining f = l # ls" by simp
  show ?case
  proof (cases "line_type l = CONFIG_LINE_TYPE_LINE")
    case False
    from Cons.prems(1) show ?thesis
      by (auto simp: read_lines_other [OF Cons.prems(2) rem False])
  next
    case True
    let ?f = "f\<lparr>remaining := ls\<rparr>"
    have later: "\<exists>l \<in> set (remaining ?f). line_type l \<noteq> CONFIG_LINE_TYPE_LINE"
      using Cons.prems(3) rem True by auto
    have step: "error_message f1 \<noteq> None"
      if "read_lines env ?f h' st' = (Loop_end, f1, h1, st1)" for h' st'
      using Cons.hyps(1) [of ?f h' st'] that Cons.prems(2) later by simp
    from Cons.prems(1) show ?thesis
      by (subst (asm) read_lines.simps)
        (auto simp: config_read_line_def rem Cons.prems(2) True Let_def
          split: prod.splits option.splits if_splits dest: step)
  qed
qed

lemma c_free_fields [simp]:
  "live (c_free b st) = live st - 1"
  "open_files (c_free b st) = open_files st"
  "realm_password_cache (c_free b st) = realm_password_cache st"
  "allocs (c_free b st) = allocs st"
  "trace (c_free b st) = trace st @ [Free b]"
  by (simp_all add: c_free_def log_event_def)

lemma log_event_fields [simp]:
  "live (log_event e st) = live st"
  "open_files (log_event e st) = open_files st"
  "realm_password_cache (log_event e st) = realm_password_cache st"
  "allocs (log_event e st) = allocs st"
  "trace (log_event e st) = trace st @ [e]"
  by (simp_all add: log_event_def)

lemma strdup_fields:
  "strdup env s st = (r, st1) \<Longrightarrow>
     live st1 = (if r = None then live st else live st + 1) \<and>
     open_files st1 = open_files st \<and>
     realm_password_cache st1 = realm_password_cache st \<and>
     trace st1 = trace st"
  by (auto simp: strdup_def malloc_def alloc_def split: if_splits)

lemma hash_add_unique_fields:
  "hash_add_unique env h k v st = (err, h1, st1) \<Longrightarrow>
     live st1 = live st \<and> open_files st1 = open_files st \<and>
     realm_password_cache st1 = realm_password_cache st \<and> trace st1 = trace st \<and>
     (if err = 0 then h1 = h @ [(k, v)] else h1 = h)"
  by (auto simp: hash_add_unique_def alloc_def EEXIST_def ENOMEM_def split: if_splits)

lemma read_lines_balance:
  "read_lines env f h st = (x, f1, h1, st1) \<Longrightarrow>
     live st1 = live st + 2 * (int (length h1) - int (length h)) \<and>
     open_files st1 = open_files st \<and>
     realm_password_cache st1 = realm_password_cache st"
proof (induction "remaining f" arbitrary: f h st)
  case Nil
  then show ?case by (simp add: read_lines_Nil)
next
  case (Cons l ls)
  from Cons.hyps(2) have rem: "remaining f = l # ls" by simp
  show ?case
  proof (cases "error_message f = None \<and> line_type l = CONFIG_LINE_TYPE_LINE")
    case False
    with Cons.prems rem show ?thesis
      by (cases "error_message f = None")
        (auto simp: read_lines_other read_lines_stopped)
  next
    case True
    let ?f = "f\<lparr>remaining := ls\<rparr>"
    have step: "live st1 = live st' + 2 * (int (length h1) - int (length h')) \<and>
        open_files st1 = open_files st' \<and>
        realm_password_cache st1 = realm_password_cache st'"
      if "read_lines env ?f h' st' = (x, f1, h1, st1)" for h' st'
      using Cons.hyps(1) [of ?f h' st'] that by simp
    from Cons.prems show ?thesis
      apply (subst (asm) read_lines.simps)
      apply (simp add: config_read_line_def rem True Let_def
          split: prod.splits option.splits if_splits)
      apply (auto dest!: step strdup_fields hash_add_unique_fields split: if_splits)
      done
  qed
qed

lemma hash_free_entries_fields:
  "live (hash_free_entries fourty_two_and_free fourty_two_and_free es st) =
     live st - 2 * int (length es) \<and>
   open_files (hash_free_entries fourty_two_and_free fourty_two_and_free es st) = open_files st \<and>
   realm_password_cache (hash_free_entries fourty_two_and_free fourty_two_and_free es st) =
     realm_password_cache st"
  by (induction es arbitrary: st) (auto simp: fourty_two_and_free_def)

lemma error_no_close_fields:
  "live (error_no_close h st) = live st - 1 - (case h of None \<Rightarrow> 0 | Some es \<Rightarrow> 1 + 2 * int (length es))"
  "open_files (error_no_close h st) = open_files st"
  "realm_password_cache (error_no_close h st) = realm_password_cache st"
  by (simp_all add: error_no_close_def free_rpf_def hash_free_def hash_free_entries_fields Let_def
      split: option.splits)

lemma error_close_fields:
  "live (error_close h st) = live st - 1 - (case h of None \<Rightarrow> 0 | Some es \<Rightarrow> 1 + 2 * int (length es))"
  "open_files (error_close h st) = open_files st - 1"
  "realm_password_cache (error_close h st) = realm_password_cache st"
  by (simp_all add: error_close_def error_no_close_fields config_close_def)

lemma create_realm_file_balance:
  assumes "create_realm_file env key st = (r, st1)"
  shows "live st1 = live st + (case r of None \<Rightarrow> 0 | Some rpf \<Rightarrow> 2 + 2 * int (length (entries rpf)))"
    and "open_files st1 = open_files st"
    and "realm_password_cache st1 = realm_password_cache st"
  using assms
  by (auto simp: create_realm_file_def malloc_def alloc_def hash_str_new_def config_open_def
      error_no_close_fields error_close_fields config_close_def
      split: prod.splits bool.splits option.splits loop_exit.splits if_splits
      dest!: read_lines_balance)

lemma create_realm_file_malformed:
  assumes cfg: "config_files env key = Some ls"
    and bad: "\<exists>l \<in> set ls. line_type l \<noteq> CONFIG_LINE_TYPE_LINE"
  shows "fst (create_realm_file env key st) = None"
proof -
  have rep: "error_message f1 \<noteq> None"
    if "read_lines env \<lparr>remaining = ls, error_message = None\<rparr> h st' = (Loop_end, f1, h1, st1)"
    for h st' f1 h1 st1
    using read_lines_reports [OF that] bad by simp
  show ?thesis
    by (auto simp: create_realm_file_def config_open_def cfg
        split: prod.splits bool.splits option.splits loop_exit.splits dest: rep)
qed

text \<open>
  Claim C7. When the file holds a record that the reader classifies as other than a
  key/value line, \<^verbatim>\<open>create_realm_file\<close> returns no entry, whatever the allocator does;
  every block it allocated is released again and the file is closed (the counts of live
  blocks and of open files are those before the call); and the failure reaches the caller:
  \<open>get_and_ref\<close> on an uncached path returns nothing and installs nothing, and
  \<^verbatim>\<open>authorize\<close> returns false.
\<close>

theorem malformed_record_aborts_creation:
  assumes cfg: "config_files env key = Some ls"
    and bad: "\<exists>l \<in> set ls. line_type l \<noteq> CONFIG_LINE_TYPE_LINE"
  shows "fst (create_realm_file env key st) = None \<and>
         live (snd (create_realm_file env key st)) = live st \<and>
         open_files (snd (create_realm_file env key st)) = open_files st \<and>
         (map_of (realm_password_cache st) key = None \<longrightarrow>
            fst (cache_coro_get_and_ref_entry env co key st) = None \<and>
            realm_password_cache (snd (cache_coro_get_and_ref_entry env co key st)) =
              realm_password_cache st \<and>
            fst (authorize env co a key st) = False)"
proof -
  obtain r st1 where run: "create_realm_file env key st = (r, st1)"
    by (cases "create_realm_file env key st")
  from create_realm_file_malformed [OF cfg bad, of st] run have r: "r = None"
    by simp
  from create_realm_file_balance [OF run] r
  have bal: "live st1 = live st" "open_files st1 = open_files st"
    "realm_password_cache st1 = realm_password_cache st"
    by simp_all
  have get: "cache_coro_get_and_ref_entry env co key st = (None, st1)"
    if "map_of (realm_password_cache st) key = None"
    using that run r by (simp add: cache_coro_get_and_ref_entry_def)
  then have "fst (authorize env co a key st) = False"
    if "map_of (realm_password_cache st) key = None"
    using that by (simp add: authorize_def)
  with run r bal get show ?thesis
    by simp
qed

theorem malformed_record_aborts_creation_witness:
  "create_realm_file malformed_env ''/etc/realm'' initial_state =
     (None,
      initial_state
        \<lparr>allocs := 5,
         trace := [Config_open ''/etc/realm'',
                   Status_error ''/etc/realm'' ''Expected username = password'',
                   Config_close,
                   Free (''*******'' @ [NUL]), Free (''*****'' @ [NUL]),
                   Free_hash, Free_rpf]\<rparr>) \<and>
   fst (authorize malformed_env 0 \<lparr>v_value = Some ''YWxpY2U6c2VjcmV0MQ=='', v_len = 20\<rparr>
          ''/etc/realm'' initial_state) = False"
proof -
  have cfg: "config_files malformed_env ''/etc/realm'' =
      Some [key_value_line ''alice'' ''secret1'', section_line, key_value_line ''bob'' ''secret2'']"
    by (simp add: malformed_env_def)
  have bad: "\<exists>l \<in> set [key_value_line ''alice'' ''secret1'', section_line,
                          key_value_line ''bob'' ''secret2''].
               line_type l \<noteq> CONFIG_LINE_TYPE_LINE"
    by (simp add: section_line_def)
  have empty: "map_of (realm_password_cache initial_state) ''/etc/realm'' = None"
    by (simp add: initial_state_def)
  have run: "snd (create_realm_file malformed_env ''/etc/realm'' initial_state) =
      initial_state
        \<lparr>allocs := 5,
         trace := [Config_open ''/etc/realm'',
                   Status_error ''/etc/realm'' ''Expected username = password'',
                   Config_close,
                   Free (''*******'' @ [NUL]), Free (''*****'' @ [NUL]),
                   Free_hash, Free_rpf]\<rparr>"
    by (simp add: run_simps malformed_env_def example_env_def read_lines.simps char_of_eq_iff)
  from malformed_record_aborts_creation [OF cfg bad, of initial_state 0
      "\<lparr>v_value = Some ''YWxpY2U6c2VjcmV0MQ=='', v_len = 20\<rparr>"] empty run
  show ?thesis
    by (simp add: prod_eq_iff)
qed

subsection \<open>Destroying an entry\<close>

lemma c_strings_snoc:
  "c_strings (h @ [(k, v)]) \<longleftrightarrow> c_strings h \<and> NUL \<notin> set k \<and> NUL \<notin> set v"
  by (simp add: c_strings_def)

lemma overwrite_42_block: "overwrite_42 (s @ [NUL]) = wiped s"
  by (induction s) (auto simp: wiped_def cstr_def)

lemma wiped_string: "NUL \<notin> set s \<Longrightarrow> wiped s = replicate (length s) (char_of (42 :: nat)) @ [NUL]"
  by (simp add: wiped_def cstr_no_NUL)

lemma cstr_wiped: "cstr (wiped s) = replicate (length (cstr s)) (char_of (42 :: nat))"
  by (induction s) (auto simp: wiped_def cstr_def char_of_eq_iff)

lemma length_wiped: "length (wiped s) = length (s @ [NUL])"
  by (induction s) (auto simp: wiped_def cstr_def)

lemma hash_free_entries_trace:
  "trace (hash_free_entries fourty_two_and_free fourty_two_and_free es st) =
     trace st @ concat (map (\<lambda>(k, v). [Free (wiped v), Free (wiped k)]) es)"
  by (induction es arbitrary: st) (auto simp: fourty_two_and_free_def overwrite_42_block)

lemma destroy_realm_file_trace:
  "trace (destroy_realm_file rpf st) = trace st @ destroy_events rpf"
  by (simp add: destroy_realm_file_def free_rpf_def hash_free_def Let_def
      hash_free_entries_trace destroy_events_def)

lemma fold_destroy_trace:
  "trace (fold (\<lambda>e. destroy_realm_file (snd e)) es st) =
     trace st @ concat (map (\<lambda>e. destroy_events (snd e)) es)"
  by (induction es arbitrary: st) (auto simp: destroy_realm_file_trace)

text \<open>The strings that loading stores are C strings.\<close>

lemma read_lines_c_strings:
  "read_lines env f h st = (x, f1, h1, st1) \<Longrightarrow> c_strings h \<Longrightarrow> c_strings h1"
proof (induction "remaining f" arbitrary: f h st)
  case Nil
  then show ?case by (simp add: read_lines_Nil)
next
  case (Cons l ls)
  from Cons.hyps(2) have rem: "remaining f = l # ls" by simp
  show ?case
  proof (cases "error_message f = None \<and> line_type l = CONFIG_LINE_TYPE_LINE")
    case False
    with Cons.prems rem show ?thesis
      by (cases "error_message f = None")
        (auto simp: read_lines_other read_lines_stopped)
  next
    case True
    let ?f = "f\<lparr>remaining := ls\<rparr>"
    have step: "c_strings h' \<longrightarrow> c_strings h1"
      if "read_lines env ?f h' st' = (x, f1, h1, st1)" for h' st'
      using Cons.hyps(1) [of ?f h' st'] that by simp
    have dup: "NUL \<notin> set s'" if "strdup env s st' = (Some s', st'')" for s s' st' st''
      using that by (auto simp: strdup_def malloc_def alloc_def NUL_notin_cstr split: if_splits)
    from Cons.prems show ?thesis
      apply (subst (asm) read_lines.simps)
      apply (simp add: config_read_line_def rem True Let_def
          split: prod.splits option.splits if_splits)
       apply (auto dest!: hash_add_unique_fields step dest: dup
          simp: c_strings_snoc split: if_splits)
      done
  qed
qed

lemma create_realm_file_c_strings:
  "create_realm_file env key st = (Some rpf, st1) \<Longrightarrow> c_strings (entries rpf)"
  by (auto simp: create_realm_file_def hash_str_new_def malloc_def alloc_def config_open_def
      c_strings_def
      split: prod.splits bool.splits option.splits loop_exit.splits if_splits
      dest!: read_lines_c_strings [unfolded c_strings_def])

text \<open>
  Claim C8. Destroying an entry releases, for every stored pair, the password block and
  the username block with every byte of the string overwritten by the sentinel 42, and
  only then the table and the entry; shutting the module down does so for every cached
  entry and leaves the cache empty. In an overwritten block the string has its length
  from before and consists of sentinel bytes only; the block of a C string is that many
  sentinel bytes and the terminator; the sentinel is not NUL.
\<close>

theorem destruction_overwrites_secrets:
  "trace (destroy_realm_file rpf st) = trace st @ destroy_events rpf \<and>
   trace (lwan_http_authorize_shutdown st) =
     trace st @ concat (map (\<lambda>e. destroy_events (snd e)) (realm_password_cache st)) \<and>
   realm_password_cache (lwan_http_authorize_shutdown st) = [] \<and>
   (\<forall>s. cstr (wiped s) = replicate (length (cstr s)) (char_of (42 :: nat))) \<and>
   (\<forall>s. NUL \<notin> set s \<longrightarrow> wiped s = replicate (length s) (char_of (42 :: nat)) @ [NUL]) \<and>
   (\<forall>s. length (wiped s) = length (s @ [NUL])) \<and>
   char_of (42 :: nat) \<noteq> NUL"
  by (simp add: destroy_realm_file_trace lwan_http_authorize_shutdown_def cache_destroy_def
      fold_destroy_trace cstr_wiped wiped_string length_wiped char_of_eq_iff)

theorem destruction_overwrites_secrets_witness:
  "trace (destroy_realm_file example_entry example_cached) =
     [Config_open ''/etc/realm'', Config_close,
      Free (''*******'' @ [NUL]), Free (''*****'' @ [NUL]),
      Free (''*******'' @ [NUL]), Free (''***'' @ [NUL]), Free_hash, Free_rpf] \<and>
   trace (lwan_http_authorize_shutdown example_cached) =
     [Config_open ''/etc/realm'', Config_close,
      Free (''*******'' @ [NUL]), Free (''*****'' @ [NUL]),
      Free (''*******'' @ [NUL]), Free (''***'' @ [NUL]), Free_hash, Free_rpf] \<and>
   realm_password_cache (lwan_http_authorize_shutdown example_cached) = []"
proof -
  have w: "wiped ''secret1'' = ''*******'' @ [NUL]" "wiped ''alice'' = ''*****'' @ [NUL]"
    "wiped ''secret2'' = ''*******'' @ [NUL]" "wiped ''bob'' = ''***'' @ [NUL]"
    by (simp_all add: wiped_def cstr_def char_of_eq_iff)
  from destruction_overwrites_secrets [of example_entry example_cached]
  show ?thesis
    by (simp add: destroy_events_def w example_entry_def example_cached_def)
qed

subsection \<open>Repeated usernames\<close>

lemma first_password_snoc:
  "first_password (seen @ [l]) u =
     (case first_password seen u of
        Some p \<Rightarrow> Some p
      | None \<Rightarrow> if streq (line_key l) u then Some (cstr (line_value l)) else None)"
  by (induction seen) auto

lemma first_password_streq:
  "streq k u \<Longrightarrow> first_password seen u = first_password seen k"
  by (induction seen) (auto simp: streq_def)

lemma hash_find_snoc:
  "hash_find (h @ [(k, v)]) u =
     (case hash_find h u of
        Some p \<Rightarrow> Some p
      | None \<Rightarrow> if streq k u then Some v else None)"
  by (induction h) (auto simp: hash_find_def)

lemma streq_cstr [simp]: "streq (cstr k) u = streq k u"
  by (simp add: streq_def cstr_idem)

lemma duplicate_events_no_error: "Status_error k m \<notin> set (duplicate_events seen ls)"
  by (induction ls arbitrary: seen) auto

lemma read_lines_key_value_lines:
  assumes ok: "\<forall>n. alloc_ok env n"
  shows "error_message f = None \<Longrightarrow>
         list_all (\<lambda>l. line_type l = CONFIG_LINE_TYPE_LINE) (remaining f) \<Longrightarrow>
         \<forall>u. hash_find h u = first_password seen u \<Longrightarrow>
         \<exists>h1 st1. read_lines env f h st = (Loop_end, f\<lparr>remaining := []\<rparr>, h1, st1) \<and>
           (\<forall>u. hash_find h1 u = first_password (seen @ remaining f) u) \<and>
           trace st1 = trace st @ duplicate_events seen (remaining f)"
proof (induction "remaining f" arbitrary: f h st seen)
  case Nil
  then show ?case by (simp add: read_lines_Nil)
next
  case (Cons l ls)
  from Cons.hyps(2) have rem: "remaining f = l # ls" by simp
  let ?f = "f\<lparr>remaining := ls\<rparr>"
  let ?k = "cstr (line_key l)"
  let ?v = "cstr (line_value l)"
  from Cons.prems(2) rem have line: "line_type l = CONFIG_LINE_TYPE_LINE"
    and rest: "list_all (\<lambda>l. line_type l = CONFIG_LINE_TYPE_LINE) (remaining ?f)"
    by simp_all
  have err: "error_message ?f = None"
    using Cons.prems(1) by simp
  have key: "hash_find h ?k = first_password seen (line_key l)"
    using Cons.prems(3) by (simp add: hash_find_cstr)
  show ?case
  proof (cases "first_password seen (line_key l)")
    case None
    have inv: "\<forall>u. hash_find (h @ [(?k, ?v)]) u = first_password (seen @ [l]) u"
      using Cons.prems(3) by (simp add: hash_find_snoc first_password_snoc)
    have "\<exists>st'. read_lines env f h st = read_lines env ?f (h @ [(?k, ?v)]) st' \<and>
            trace st' = trace st"
      using ok key None
      apply (subst read_lines.simps)
      apply (simp add: config_read_line_def rem line Cons.prems(1) strdup_def malloc_def alloc_def
          hash_add_unique_def)
      apply (rule exI, rule conjI, rule refl)
      apply simp
      done
    then obtain st' where
      unfold: "read_lines env f h st = read_lines env ?f (h @ [(?k, ?v)]) st'"
      and same: "trace st' = trace st"
      by blast
    from Cons.hyps(1) [of ?f "h @ [(?k, ?v)]" "seen @ [l]" st', OF _ err rest inv]
    obtain h1 st1 where
      run: "read_lines env ?f (h @ [(?k, ?v)]) st' = (Loop_end, ?f\<lparr>remaining := []\<rparr>, h1, st1)"
      and res: "\<forall>u. hash_find h1 u = first_password ((seen @ [l]) @ ls) u"
      and tr: "trace st1 = trace st' @ duplicate_events (seen @ [l]) ls"
      by auto
    from unfold run res tr same None show ?thesis
      by (simp add: rem)
  next
    case (Some p)
    have inv: "\<forall>u. hash_find h u = first_password (seen @ [l]) u"
    proof
      fix u
      show "hash_find h u = first_password (seen @ [l]) u"
      proof (cases "first_password seen u")
        case None
        with Some have "\<not> streq (line_key l) u"
          using first_password_streq [of "line_key l" u seen] by auto
        with None Cons.prems(3) show ?thesis
          by (simp add: first_password_snoc)
      next
        case (Some q)
        with Cons.prems(3) show ?thesis
          by (simp add: first_password_snoc)
      qed
    qed
    have "\<exists>st'. read_lines env f h st = read_lines env ?f h st' \<and>
            trace st' = trace st @
              [Free (?k @ [NUL]), Free (?v @ [NUL]),
               Status_warning (''Username entry already exists, ignoring: '' @
                               [CHR 0x22] @ ?k @ [CHR 0x22])]"
      using ok key Some
      apply (subst read_lines.simps)
      apply (simp add: config_read_line_def rem line Cons.prems(1) strdup_def malloc_def alloc_def
          hash_add_unique_def EEXIST_def)
      apply (rule exI, rule conjI, rule refl)
      apply simp
      done
    then obtain st' where
      unfold: "read_lines env f h st = read_lines env ?f h st'"
      and warn: "trace st' = trace st @
              [Free (?k @ [NUL]), Free (?v @ [NUL]),
               Status_warning (''Username entry already exists, ignoring: '' @
                               [CHR 0x22] @ ?k @ [CHR 0x22])]"
      by blast
    from Cons.hyps(1) [of ?f h "seen @ [l]" st', OF _ err rest inv]
    obtain h1 st1 where
      run: "read_lines env ?f h st' = (Loop_end, ?f\<lparr>remaining := []\<rparr>, h1, st1)"
      and res: "\<forall>u. hash_find h1 u = first_password ((seen @ [l]) @ ls) u"
      and tr: "trace st1 = trace st' @ duplicate_events (seen @ [l]) ls"
      by auto
    from unfold run res tr warn Some show ?thesis
      by (simp add: rem)
  qed
qed

text \<open>
  Claim C6. For a password file that opens and holds only \<^verbatim>\<open>username = password\<close> lines,
  with an allocator that serves every request, loading succeeds also when usernames repeat:
  the index maps every username to the password of its first line; for every repeating
  line the two duplicated strings are released and a warning is logged; no error is logged.
\<close>

theorem duplicate_usernames_keep_first:
  assumes ok: "\<forall>n. alloc_ok env n"
    and cfg: "config_files env key = Some ls"
    and wf: "list_all (\<lambda>l. line_type l = CONFIG_LINE_TYPE_LINE) ls"
  shows "\<exists>rpf st1. create_realm_file env key st = (Some rpf, st1) \<and>
           (\<forall>u. hash_find (entries rpf) u = first_password ls u) \<and>
           trace st1 = trace st @ [Config_open key] @ duplicate_events [] ls @ [Config_close] \<and>
           (\<forall>k m. Status_error k m \<notin> set (duplicate_events [] ls))"
proof -
  let ?f = "\<lparr>remaining = ls, error_message = None\<rparr>"
  have "\<exists>st'. create_realm_file env key st =
            (case read_lines env ?f [] st' of
               (Goto_error, f1, h, st4) \<Rightarrow> (None, error_close (Some h) st4)
             | (Loop_end, f1, h, st4) \<Rightarrow>
                 (case error_message f1 of
                    Some msg \<Rightarrow>
                      (None, error_close (Some h) (log_event (Status_error key msg) st4))
                  | None \<Rightarrow> (Some \<lparr>entries = h\<rparr>, config_close st4))) \<and>
          trace st' = trace st @ [Config_open key]"
    using ok cfg
    apply (simp add: create_realm_file_def malloc_def alloc_def hash_str_new_def config_open_def)
    apply (rule exI, rule conjI, rule refl)
    apply simp
    done
  then obtain st' where
    unfold: "create_realm_file env key st =
            (case read_lines env ?f [] st' of
               (Goto_error, f1, h, st4) \<Rightarrow> (None, error_close (Some h) st4)
             | (Loop_end, f1, h, st4) \<Rightarrow>
                 (case error_message f1 of
                    Some msg \<Rightarrow>
                      (None, error_close (Some h) (log_event (Status_error key msg) st4))
                  | None \<Rightarrow> (Some \<lparr>entries = h\<rparr>, config_close st4)))"
    and opened: "trace st' = trace st @ [Config_open key]"
    by blast
  from read_lines_key_value_lines [OF ok, of ?f "[]" "[]" st'] wf
  obtain h1 st1 where
    run: "read_lines env ?f [] st' = (Loop_end, ?f\<lparr>remaining := []\<rparr>, h1, st1)"
    and res: "\<forall>u. hash_find h1 u = first_password ls u"
    and tr: "trace st1 = trace st' @ duplicate_events [] ls"
    by (auto simp: hash_find_def)
  have "create_realm_file env key st = (Some \<lparr>entries = h1\<rparr>, config_close st1)"
    unfolding unfold run by simp
  with res tr opened show ?thesis
    by (simp add: config_close_def duplicate_events_no_error)
qed

theorem duplicate_usernames_keep_first_witness:
  "create_realm_file duplicate_env ''/etc/realm'' initial_state =
     (Some \<lparr>entries = [(''alice'', ''secret1''), (''bob'', ''secret2'')]\<rparr>,
      \<lparr>realm_password_cache = [], allocs = 11, live = 6, open_files = 0,
       trace = [Config_open ''/etc/realm'',
                Free (''alice'' @ [NUL]), Free (''other'' @ [NUL]),
                Status_warning (''Username entry already exists, ignoring: '' @
                                [CHR 0x22] @ ''alice'' @ [CHR 0x22]),
                Config_close]\<rparr>) \<and>
   hash_find [(''alice'', ''secret1''), (''bob'', ''secret2'')] ''alice'' = Some ''secret1''"
proof -
  let ?ls = "[key_value_line ''alice'' ''secret1'', key_value_line ''alice'' ''other'',
              key_value_line ''bob'' ''secret2'']"
  have ok: "\<forall>n. alloc_ok duplicate_env n"
    by (simp add: duplicate_env_def example_env_def)
  have cfg: "config_files duplicate_env ''/etc/realm'' = Some ?ls"
    by (simp add: duplicate_env_def)
  have wf: "list_all (\<lambda>l. line_type l = CONFIG_LINE_TYPE_LINE) ?ls"
    by (simp add: key_value_line_def)
  from duplicate_usernames_keep_first [OF ok cfg wf, of initial_state]
  obtain rpf st1 where
    run: "create_realm_file duplicate_env ''/etc/realm'' initial_state = (Some rpf, st1)"
    and res: "\<forall>u. hash_find (entries rpf) u = first_password ?ls u"
    by blast
  have eval: "create_realm_file duplicate_env ''/etc/realm'' initial_state =
     (Some \<lparr>entries = [(''alice'', ''secret1''), (''bob'', ''secret2'')]\<rparr>,
      \<lparr>realm_password_cache = [], allocs = 11, live = 6, open_files = 0,
       trace = [Config_open ''/etc/realm'',
                Free (''alice'' @ [NUL]), Free (''other'' @ [NUL]),
                Status_warning (''Username entry already exists, ignoring: '' @
                                [CHR 0x22] @ ''alice'' @ [CHR 0x22]),
                Config_close]\<rparr>)"
    by (simp add: run_simps duplicate_env_def example_env_def read_lines.simps)
  from run eval have "entries rpf = [(''alice'', ''secret1''), (''bob'', ''secret2'')]"
    by auto
  with res have "hash_find [(''alice'', ''secret1''), (''bob'', ''secret2'')] ''alice'' =
      first_password ?ls ''alice''"
    by simp
  with eval show ?thesis
    by (simp add: key_value_line_def streq_def cstr_def)
qed

end
